theory Spec2Isabelle
  imports Complex_Main "HOL-Library.Multiset" "HOL-Library.Char_ord" "HOL-Library.List_Lexorder" "HOL-Library.Char_ord" "HOL-Library.List_Lexorder"
begin

section \<open>Python values\<close>

text \<open>
  The scripts pass untyped dictionaries around (project descriptors, user preferences,
  idea, execution and revenue records) and read them back from JSON files. Values are
  therefore modelled as one datatype of JSON-like Python values. A dictionary is an
  association list: lookup takes the first entry of a key, assignment replaces the value
  of an existing key in place and appends a new key at the end, as Python dictionaries do.

  Numbers are exact rationals: every finite Python \<open>int\<close> and \<open>float\<close> is one. Infinities
  and NaN are not represented. Python's \<open>bool\<close> is a subclass of \<open>int\<close>, so a boolean
  counts as the number 0 or 1 wherever a number is expected.
\<close>

datatype pyval =
    PNone
  | PBool bool
  | PNum rat
  | PStr string
  | PList "pyval list"
  | PDict "(string \<times> pyval) list"

text \<open>The exceptions that the modelled code can raise.\<close>

datatype py_error = KeyError | TypeError | AttributeError

text \<open>Sequencing of computations that may raise: the first exception propagates.\<close>

definition bindE :: "py_error + 'a \<Rightarrow> ('a \<Rightarrow> py_error + 'b) \<Rightarrow> py_error + 'b" where
  "bindE m f = (case m of Inl e \<Rightarrow> Inl e | Inr x \<Rightarrow> f x)"

text \<open>\<open>d.get(k, default)\<close>: only dictionaries have the method.\<close>

fun py_get :: "pyval \<Rightarrow> string \<Rightarrow> pyval \<Rightarrow> py_error + pyval" where
  "py_get (PDict d) k dflt = Inr (case map_of d k of None \<Rightarrow> dflt | Some v \<Rightarrow> v)"
| "py_get _ k dflt = Inl AttributeError"

text \<open>\<open>d[k]\<close> with a string key: \<open>KeyError\<close> on a dictionary without the key,
  \<open>TypeError\<close> on every other value (lists and strings want integer indices, the rest
  is not subscriptable).\<close>

fun py_getitem :: "pyval \<Rightarrow> string \<Rightarrow> py_error + pyval" where
  "py_getitem (PDict d) k = (case map_of d k of None \<Rightarrow> Inl KeyError | Some v \<Rightarrow> Inr v)"
| "py_getitem _ k = Inl TypeError"

text \<open>\<open>d[k] = v\<close> on a dictionary.\<close>

fun dict_set :: "(string \<times> pyval) list \<Rightarrow> string \<Rightarrow> pyval \<Rightarrow> (string \<times> pyval) list" where
  "dict_set [] k v = [(k, v)]"
| "dict_set (p # ps) k v = (if fst p = k then (k, v) # ps else p # dict_set ps k v)"

text \<open>The operand of an arithmetic operation or of an ordering comparison with a number.\<close>

fun as_number :: "pyval \<Rightarrow> py_error + rat" where
  "as_number (PNum r) = Inr r"
| "as_number (PBool b) = Inr (if b then 1 else 0)"
| "as_number _ = Inl TypeError"

text \<open>Truth value of an object, as tested by \<open>if x:\<close> and \<open>not x\<close>.\<close>

fun truthy :: "pyval \<Rightarrow> bool" where
  "truthy PNone = False"
| "truthy (PBool b) = b"
| "truthy (PNum r) = (r \<noteq> 0)"
| "truthy (PStr s) = (s \<noteq> [])"
| "truthy (PList xs) = (xs \<noteq> [])"
| "truthy (PDict d) = (d \<noteq> [])"

text \<open>\<open>for x in v\<close>: a list yields its elements, a dictionary its keys, a string its
  characters; nothing else is iterable.\<close>

fun py_iter :: "pyval \<Rightarrow> py_error + pyval list" where
  "py_iter (PList xs) = Inr xs"
| "py_iter (PDict d) = Inr (map (\<lambda>p. PStr (fst p)) d)"
| "py_iter (PStr s) = Inr (map (\<lambda>c. PStr [c]) s)"
| "py_iter _ = Inl TypeError"

subsection \<open>Strings\<close>

text \<open>\<open>str.lower()\<close> on the ASCII letters. (Python also lowers cased letters outside
  ASCII; no result below depends on how \<open>lower_char\<close> acts.)\<close>

definition lower_char :: "char \<Rightarrow> char" where
  "lower_char c =
     (case map_of (zip ''ABCDEFGHIJKLMNOPQRSTUVWXYZ'' ''abcdefghijklmnopqrstuvwxyz'') c of
        None \<Rightarrow> c
      | Some l \<Rightarrow> l)"

fun py_lower :: "pyval \<Rightarrow> py_error + string" where
  "py_lower (PStr s) = Inr (map lower_char s)"
| "py_lower _ = Inl AttributeError"

text \<open>\<open>k in s\<close> for strings: \<open>k\<close> occurs in \<open>s\<close> as a contiguous substring.\<close>

fun str_in :: "string \<Rightarrow> string \<Rightarrow> bool" where
  "str_in k [] = (k = [])"
| "str_in k (c # cs) = (take (length k) (c # cs) = k \<or> str_in k cs)"

text \<open>\<open>any(k in s for k in ks)\<close>.\<close>

definition any_in :: "string list \<Rightarrow> string \<Rightarrow> bool" where
  "any_in ks s = list_ex (\<lambda>k. str_in k s) ks"

section \<open>The potential scorer: \<open>IdeaAnalyzer.analyze_potential\<close>\<close>

text \<open>The tier strings of the source are the Chinese words for high, medium and low.\<close>

datatype potential = High | Medium | Low

text \<open>1. The stars band (at most 30 points).\<close>

definition stars_score :: "rat \<Rightarrow> int" where
  "stars_score stars =
     (if stars > 1000 then 30
      else if stars > 500 then 25
      else if stars > 100 then 20
      else if stars > 50 then 15
      else 10)"

text \<open>2. The band of newly gained stars (at most 25 points).\<close>

definition trending_score :: "rat \<Rightarrow> int" where
  "trending_score trending_stars =
     (if trending_stars > 100 then 25
      else if trending_stars > 50 then 20
      else if trending_stars > 20 then 15
      else if trending_stars > 10 then 10
      else 5)"

definition ai_keywords :: "string list" where
  "ai_keywords = [''ai'', ''llm'', ''gpt'', ''chatgpt'', ''claude'', ''agent'', ''openai'', ''anthropic'']"

definition hot_languages :: "string list" where
  "hot_languages = [''python'', ''typescript'', ''rust'', ''go'']"

text \<open>3. The technology band (at most 20 points).\<close>

definition tech_score :: "string \<Rightarrow> string \<Rightarrow> int" where
  "tech_score language description =
     (if any_in ai_keywords description then 15 else 0)
     + (if language \<in> set hot_languages then 5 else 0)"

definition monetization_keywords :: "string list" where
  "monetization_keywords =
     [''api'', ''sdk'', ''cli'', ''framework'', ''platform'', ''tool'',
      ''automation'', ''chatbot'', ''assistant'', ''dashboard'']"

text \<open>4. The monetization keyword band (at most 15 points).\<close>

definition monetization_score :: "string \<Rightarrow> int" where
  "monetization_score description =
     (if any_in monetization_keywords description then 15
      else if any_in [''library'', ''package''] description then 10
      else 0)"

text \<open>5. The business model band (at most 10 points).\<close>

definition business_score :: "string \<Rightarrow> int" where
  "business_score description =
     (if str_in ''saas'' description \<or> str_in ''enterprise'' description then 10
      else if str_in ''api'' description \<or> str_in ''service'' description then 7
      else if str_in ''tool'' description \<or> str_in ''app'' description then 5
      else 0)"

text \<open>The tier of a score.\<close>

definition potential_of :: "int \<Rightarrow> potential" where
  "potential_of score = (if score \<ge> 70 then High else if score \<ge> 50 then Medium else Low)"

text \<open>The scorer adds the five bands in the order of the source. The exceptions follow
  the order of evaluation: the stars are read and compared first, then the trending
  stars, then the language and the description are lowered.\<close>

definition analyze_potential :: "pyval \<Rightarrow> py_error + (potential \<times> int)" where
  "analyze_potential project =
     bindE (py_get project ''stars'' (PNum 0)) (\<lambda>stars_v.
     bindE (as_number stars_v) (\<lambda>stars.
     bindE (py_get project ''trending_stars'' (PNum 0)) (\<lambda>trending_v.
     bindE (as_number trending_v) (\<lambda>trending_stars.
     bindE (py_get project ''language'' (PStr [])) (\<lambda>language_v.
     bindE (py_lower language_v) (\<lambda>language.
     bindE (py_get project ''description'' (PStr [])) (\<lambda>description_v.
     bindE (py_lower description_v) (\<lambda>description.
       let score = 0 + stars_score stars;
           score = score + trending_score trending_stars;
           score = score + tech_score language description;
           score = score + monetization_score description;
           score = score + business_score description
       in Inr (potential_of score, score)))))))))"

section \<open>The idea generator\<close>

text \<open>\<open>IdeaAnalyzer._analyze_suitable_types\<close>: the idea types that suit a project, in
  the order in which the rules are tried. The three keyword lists are written inline in
  the source.\<close>

definition consulting_keywords :: "string list" where
  "consulting_keywords = [''framework'', ''platform'', ''architecture'']"

definition training_keywords :: "string list" where
  "training_keywords = [''tutorial'', ''guide'', ''learn'']"

definition customization_keywords :: "string list" where
  "customization_keywords = [''enterprise'', ''business'', ''saas'', ''api'']"

definition analyze_suitable_types :: "pyval \<Rightarrow> py_error + string list" where
  "analyze_suitable_types project =
     bindE (py_get project ''description'' (PStr [])) (\<lambda>description_v.
     bindE (py_lower description_v) (\<lambda>description.
     bindE (py_get project ''language'' (PStr [])) (\<lambda>language_v.
     bindE (py_lower language_v) (\<lambda>language.
     bindE (py_get project ''stars'' (PNum 0)) (\<lambda>stars_v.
     bindE (as_number stars_v) (\<lambda>stars.
       let suitable = [];
           suitable = (if stars > 50 then suitable @ [''deployment_service''] else suitable);
           suitable = (if any_in consulting_keywords description
                       then suitable @ [''consulting''] else suitable);
           suitable = (if any_in training_keywords description \<or> stars > 100
                       then suitable @ [''training''] else suitable);
           suitable = (if any_in customization_keywords description
                       then suitable @ [''customization''] else suitable);
           suitable = (if suitable = [] then [''deployment_service'', ''training''] else suitable)
       in Inr suitable))))))"

text \<open>A descriptor the two functions accept: a dictionary whose stars and trending
  stars, where present, are numbers and whose language and description, where present,
  are strings.\<close>

definition is_number :: "pyval \<Rightarrow> bool" where
  "is_number v = (case v of PNum r \<Rightarrow> True | PBool b \<Rightarrow> True | _ \<Rightarrow> False)"

definition is_str :: "pyval \<Rightarrow> bool" where
  "is_str v = (case v of PStr s \<Rightarrow> True | _ \<Rightarrow> False)"

definition field_ok :: "(pyval \<Rightarrow> bool) \<Rightarrow> (string \<times> pyval) list \<Rightarrow> string \<Rightarrow> bool" where
  "field_ok P d k = (case map_of d k of None \<Rightarrow> True | Some v \<Rightarrow> P v)"

fun descriptor_ok :: "pyval \<Rightarrow> bool" where
  "descriptor_ok (PDict d) =
     (field_ok is_number d ''stars'' \<and> field_ok is_number d ''trending_stars''
      \<and> field_ok is_str d ''language'' \<and> field_ok is_str d ''description'')"
| "descriptor_ok _ = False"

subsection \<open>The template catalog (\<open>config.IDEA_TEMPLATES\<close>)\<close>

text \<open>A template carries three ranges, each a pair (minimum, maximum). The text fields of
  a template (\<open>name\<close> and \<open>description\<close>, Chinese text with a \<open>{project_name}\<close>
  placeholder, and \<open>target_users\<close>) are left out, and with them the three keys of a
  generated idea that are copied from them.\<close>

record template =
  cost_range :: "rat \<times> rat"
  income_range :: "rat \<times> rat"
  time_range :: "rat \<times> rat"

definition IDEA_TEMPLATES :: "(string \<times> template) list" where
  "IDEA_TEMPLATES =
     [(''deployment_service'',
         \<lparr>cost_range = (100, 500), income_range = (2000, 10000), time_range = (1, 3)\<rparr>),
      (''consulting'',
         \<lparr>cost_range = (0, 100), income_range = (5000, 20000), time_range = (1 / 2, 2)\<rparr>),
      (''training'',
         \<lparr>cost_range = (0, 200), income_range = (1000, 50000), time_range = (3, 7)\<rparr>),
      (''customization'',
         \<lparr>cost_range = (500, 2000), income_range = (5000, 50000), time_range = (7, 30)\<rparr>)]"

subsection \<open>\<open>IdeaAnalyzer._adjust_for_user\<close>\<close>

text \<open>\<open>a // b\<close> on numbers: the floor of the quotient.\<close>

definition floordiv :: "rat \<Rightarrow> rat \<Rightarrow> rat" where
  "floordiv a b = of_int \<lfloor>a / b\<rfloor>"

text \<open>\<open>any(s.lower() in ['python', 'ai', 'web', 'javascript'] for s in skills)\<close>: the
  elements are lowered one after the other, and \<open>any\<close> stops at the first hit.\<close>

fun any_skill :: "pyval list \<Rightarrow> py_error + bool" where
  "any_skill [] = Inr False"
| "any_skill (s # rest) =
     (case py_lower s of
        Inl e \<Rightarrow> Inl e
      | Inr l \<Rightarrow> if l \<in> set [''python'', ''ai'', ''web'', ''javascript''] then Inr True
               else any_skill rest)"

definition adjust_for_user :: "template \<Rightarrow> pyval \<Rightarrow> py_error + (rat \<times> rat \<times> rat)" where
  "adjust_for_user template preferences =
     (if \<not> truthy preferences then
        Inr (fst (cost_range template), fst (income_range template), fst (time_range template))
      else
        bindE (py_get preferences ''budget'' (PNum 1000)) (\<lambda>budget_v.
        bindE (as_number budget_v) (\<lambda>budget.
          let cost = min (snd (cost_range template))
                         (max (fst (cost_range template)) (floordiv budget 2)) in
        bindE (py_get preferences ''time_available'' (PNum 2)) (\<lambda>time_v.
        bindE (as_number time_v) (\<lambda>time_available.
          let time_needed = min (snd (time_range template))
                                (max (fst (time_range template)) time_available) in
        bindE (py_get preferences ''skills'' (PList [])) (\<lambda>skills_v.
        bindE (py_iter skills_v) (\<lambda>skills.
        bindE (any_skill skills) (\<lambda>hit.
          let income = fst (income_range template);
              income = (if hit
                        then floordiv (fst (income_range template) + snd (income_range template)) 2
                        else income)
          in Inr (cost, income, time_needed)))))))))"

subsection \<open>\<open>IdeaAnalyzer.generate_ideas\<close>\<close>

text \<open>\<open>s.split('/')[-1]\<close>: what follows the last slash.\<close>

definition last_segment :: "string \<Rightarrow> string" where
  "last_segment s = rev (takeWhile (\<lambda>c. c \<noteq> CHR ''/'') (rev s))"

text \<open>\<open>name.split('/')\<close> needs a string.\<close>

fun py_split_last :: "pyval \<Rightarrow> py_error + string" where
  "py_split_last (PStr s) = Inr (last_segment s)"
| "py_split_last _ = Inl AttributeError"

text \<open>The loop over the suitable types: a type without a template is skipped.\<close>

fun generate_loop ::
  "string list \<Rightarrow> pyval \<Rightarrow> string \<Rightarrow> pyval \<Rightarrow> py_error + pyval list" where
  "generate_loop [] user_preferences project_name project_url = Inr []"
| "generate_loop (idea_type # rest) user_preferences project_name project_url =
     (case map_of IDEA_TEMPLATES idea_type of
        None \<Rightarrow> generate_loop rest user_preferences project_name project_url
      | Some template \<Rightarrow>
          (case adjust_for_user template user_preferences of
             Inl e \<Rightarrow> Inl e
           | Inr (cost, income, time) \<Rightarrow>
               (case generate_loop rest user_preferences project_name project_url of
                  Inl e \<Rightarrow> Inl e
                | Inr ideas \<Rightarrow>
                    Inr (PDict [(''type'', PStr idea_type),
                                (''cost'', PNum cost),
                                (''expected_income'', PNum income),
                                (''time_needed'', PNum time),
                                (''project'', PStr project_name),
                                (''project_url'', project_url)] # ideas))))"

definition generate_ideas :: "pyval \<Rightarrow> pyval \<Rightarrow> py_error + pyval list" where
  "generate_ideas project user_preferences =
     bindE (py_get project ''name'' (PStr [])) (\<lambda>name_v.
     bindE (py_split_last name_v) (\<lambda>project_name.
     bindE (analyze_suitable_types project) (\<lambda>suitable_types.
     bindE (py_get project ''url'' (PStr [])) (\<lambda>project_url.
       generate_loop suitable_types user_preferences project_name project_url))))"

text \<open>Preferences that \<open>_adjust_for_user\<close> accepts: none, or a dictionary whose budget and
  available time, where present, are numbers and whose skills, where present, are a list
  of strings.\<close>

fun preferences_ok :: "pyval \<Rightarrow> bool" where
  "preferences_ok PNone = True"
| "preferences_ok (PDict d) =
     (field_ok is_number d ''budget'' \<and> field_ok is_number d ''time_available''
      \<and> field_ok (\<lambda>v. case v of PList xs \<Rightarrow> list_all is_str xs | _ \<Rightarrow> False) d ''skills'')"
| "preferences_ok _ = False"

section \<open>The idea ranker: \<open>IdeaAnalyzer.rank_ideas\<close>\<close>


text \<open>The key function is applied to every element, in order, before anything is
  compared; the first exception propagates.\<close>

fun map_err :: "('a \<Rightarrow> py_error + 'b) \<Rightarrow> 'a list \<Rightarrow> py_error + 'b list" where
  "map_err f [] = Inr []"
| "map_err f (x # xs) =
     (case f x of
        Inl e \<Rightarrow> Inl e
      | Inr y \<Rightarrow> (case map_err f xs of Inl e \<Rightarrow> Inl e | Inr ys \<Rightarrow> Inr (y # ys)))"

text \<open>\<open>sorted(xs, key=..., reverse=True)\<close> on elements paired with their keys. Python's sort
  is stable, and with \<open>reverse=True\<close> it reverses the list, sorts it in ascending order
  and reverses the result, so that elements with equal keys keep their order.\<close>

definition sorted_reverse :: "('k::linorder \<times> 'a) list \<Rightarrow> 'a list" where
  "sorted_reverse kxs = map snd (rev (sort_key fst (rev kxs)))"





text \<open>A project that \<open>generate_ideas\<close> accepts: an accepted descriptor whose name, where
  present, is a string.\<close>

definition project_ok :: "pyval \<Rightarrow> bool" where
  "project_ok project =
     (descriptor_ok project
      \<and> (case project of PDict d \<Rightarrow> field_ok is_str d ''name'' | _ \<Rightarrow> False))"

section \<open>The record store: \<open>AssetPool\<close>\<close>

text \<open>
  The store keeps three collections in memory and mirrors each in a JSON file. A
  collection is whatever \<open>json.load\<close> returned, so it is a value like any other, and the
  operations raise on a collection or a record of the wrong shape as the Python does.
  Equality of identifiers (\<open>idea['id'] == idea_id\<close>) is equality of values; this is exact
  for strings, which is what every identifier made by the store is.

  A file is seen through what \<open>_load_json\<close> can tell of it: it does not exist, it cannot
  be opened or decoded, its text is not valid JSON, or it holds the JSON text of a value.
  \<open>_save_json\<close> replaces the content by the text of the value. A write that fails (for
  instance in a directory without write permission) is outside the model, and so is a
  value that \<open>json.dump\<close> cannot serialise.

  \<open>datetime.now()\<close> is an input: every operation takes one reading of the clock for
  each call of \<open>now()\<close> it can make, in the order of the calls. A reading is seen through
  its two renderings.
\<close>

record datetime =
  strftime :: string  \<comment> \<open>\<open>strftime('%Y%m%d%H%M%S')\<close>\<close>
  isoformat :: string  \<comment> \<open>\<open>isoformat()\<close>\<close>

datatype backing_file = Missing | Unreadable | Malformed | Json pyval

record asset_pool =
  ideas :: pyval
  executions :: pyval
  revenues :: pyval
  ideas_file :: backing_file
  execution_file :: backing_file
  revenue_file :: backing_file

text \<open>\<open>_load_json\<close>: the default unless the file exists and parses; the bare \<open>except\<close>
  swallows every failure to open, decode or parse.\<close>

fun load_json :: "backing_file \<Rightarrow> pyval \<Rightarrow> pyval" where
  "load_json Missing dflt = dflt"
| "load_json Unreadable dflt = dflt"
| "load_json Malformed dflt = dflt"
| "load_json (Json v) dflt = v"

text \<open>\<open>__init__\<close> with \<open>_load_data\<close>, on the three files of the data directory.\<close>

definition AssetPool :: "backing_file \<Rightarrow> backing_file \<Rightarrow> backing_file \<Rightarrow> asset_pool" where
  "AssetPool ideas_f execution_f revenue_f =
     \<lparr>ideas = load_json ideas_f (PList []),
      executions = load_json execution_f (PList []),
      revenues = load_json revenue_f (PList []),
      ideas_file = ideas_f,
      execution_file = execution_f,
      revenue_file = revenue_f\<rparr>"

text \<open>The three uses of \<open>_save_json\<close>.\<close>

definition save_ideas :: "asset_pool \<Rightarrow> asset_pool" where
  "save_ideas s = s\<lparr>ideas_file := Json (ideas s)\<rparr>"

definition save_executions :: "asset_pool \<Rightarrow> asset_pool" where
  "save_executions s = s\<lparr>execution_file := Json (executions s)\<rparr>"

definition save_revenues :: "asset_pool \<Rightarrow> asset_pool" where
  "save_revenues s = s\<lparr>revenue_file := Json (revenues s)\<rparr>"

text \<open>\<open>d[k] = v\<close> with a string key: only a dictionary takes it.\<close>

fun py_setitem :: "pyval \<Rightarrow> string \<Rightarrow> pyval \<Rightarrow> py_error + pyval" where
  "py_setitem (PDict d) k v = Inr (PDict (dict_set d k v))"
| "py_setitem _ k v = Inl TypeError"

text \<open>\<open>xs.append(x)\<close>: only a list has the method.\<close>

fun py_append :: "pyval \<Rightarrow> pyval \<Rightarrow> py_error + pyval" where
  "py_append (PList xs) x = Inr (PList (xs @ [x]))"
| "py_append _ x = Inl AttributeError"

text \<open>\<open>len(v)\<close>.\<close>

fun py_len :: "pyval \<Rightarrow> py_error + nat" where
  "py_len (PList xs) = Inr (length xs)"
| "py_len (PDict d) = Inr (length d)"
| "py_len (PStr s) = Inr (length s)"
| "py_len _ = Inl TypeError"

text \<open>An optional string argument (\<open>notes: str = None\<close>) as a value, and its truth value:
  \<open>None\<close> and the empty string are false.\<close>

definition opt_str :: "string option \<Rightarrow> pyval" where
  "opt_str x = (case x of None \<Rightarrow> PNone | Some n \<Rightarrow> PStr n)"

definition given :: "string option \<Rightarrow> bool" where
  "given x = truthy (opt_str x)"

subsection \<open>Ideas\<close>

definition add_idea ::
  "asset_pool \<Rightarrow> datetime \<Rightarrow> datetime \<Rightarrow> pyval \<Rightarrow> py_error + (string \<times> asset_pool)" where
  "add_idea s now1 now2 idea =
     (let idea_id = ''idea-'' @ strftime now1 in
      bindE (py_setitem idea ''id'' (PStr idea_id)) (\<lambda>idea.
      bindE (py_setitem idea ''created_at'' (PStr (isoformat now2))) (\<lambda>idea.
      bindE (py_setitem idea ''status'' (PStr ''pending'')) (\<lambda>idea.
      bindE (py_setitem idea ''score'' (PNum 0)) (\<lambda>idea.
      bindE (py_get idea ''tags'' (PList [])) (\<lambda>tags.
      bindE (py_setitem idea ''tags'' tags) (\<lambda>idea.
      bindE (py_append (ideas s) idea) (\<lambda>ideas'.
        Inr (idea_id, save_ideas (s\<lparr>ideas := ideas'\<rparr>))))))))))"

text \<open>The loop of \<open>get_idea\<close>: the first idea with the identifier, or \<open>None\<close>.\<close>

fun get_idea_loop :: "pyval list \<Rightarrow> pyval \<Rightarrow> py_error + pyval" where
  "get_idea_loop [] idea_id = Inr PNone"
| "get_idea_loop (idea # rest) idea_id =
     (case py_getitem idea ''id'' of
        Inl e \<Rightarrow> Inl e
      | Inr v \<Rightarrow> if v = idea_id then Inr idea else get_idea_loop rest idea_id)"

definition get_idea :: "asset_pool \<Rightarrow> string \<Rightarrow> py_error + pyval" where
  "get_idea s idea_id = bindE (py_iter (ideas s)) (\<lambda>items. get_idea_loop items (PStr idea_id))"

text \<open>The body of the loop of \<open>update_idea_status\<close> on the idea that was found.\<close>

definition set_idea_status ::
  "pyval \<Rightarrow> datetime \<Rightarrow> string \<Rightarrow> string option \<Rightarrow> py_error + pyval" where
  "set_idea_status idea now status notes =
     bindE (py_setitem idea ''status'' (PStr status)) (\<lambda>idea.
     bindE (py_setitem idea ''updated_at'' (PStr (isoformat now))) (\<lambda>idea.
       if given notes then py_setitem idea ''notes'' (opt_str notes) else Inr idea))"

text \<open>The loop of \<open>update_idea_status\<close>: \<open>None\<close> when it runs to its end without a match
  (the function then returns \<open>False\<close>), the list with the first match updated otherwise.\<close>

fun update_idea_loop ::
  "pyval list \<Rightarrow> datetime \<Rightarrow> pyval \<Rightarrow> string \<Rightarrow> string option
     \<Rightarrow> py_error + pyval list option" where
  "update_idea_loop [] now idea_id status notes = Inr None"
| "update_idea_loop (idea # rest) now idea_id status notes =
     (case py_getitem idea ''id'' of
        Inl e \<Rightarrow> Inl e
      | Inr v \<Rightarrow>
          if v = idea_id then
            (case set_idea_status idea now status notes of
               Inl e \<Rightarrow> Inl e
             | Inr idea' \<Rightarrow> Inr (Some (idea' # rest)))
          else
            (case update_idea_loop rest now idea_id status notes of
               Inl e \<Rightarrow> Inl e
             | Inr None \<Rightarrow> Inr None
             | Inr (Some rest') \<Rightarrow> Inr (Some (idea # rest'))))"

definition update_idea_status ::
  "asset_pool \<Rightarrow> datetime \<Rightarrow> pyval \<Rightarrow> string \<Rightarrow> string option
     \<Rightarrow> py_error + (bool \<times> asset_pool)" where
  "update_idea_status s now idea_id status notes =
     bindE (py_iter (ideas s)) (\<lambda>items.
     bindE (update_idea_loop items now idea_id status notes) (\<lambda>found.
       case found of
         None \<Rightarrow> Inr (False, s)
       | Some items' \<Rightarrow> Inr (True, save_ideas (s\<lparr>ideas := PList items'\<rparr>))))"

subsection \<open>Executions\<close>

definition start_execution ::
  "asset_pool \<Rightarrow> datetime \<Rightarrow> datetime \<Rightarrow> datetime \<Rightarrow> string
     \<Rightarrow> py_error + (string \<times> asset_pool)" where
  "start_execution s now1 now2 now3 idea_id =
     (let exec_id = ''exec-'' @ strftime now1;
          execution = PDict [(''id'', PStr exec_id),
                             (''idea_id'', PStr idea_id),
                             (''started_at'', PStr (isoformat now2)),
                             (''status'', PStr ''in_progress''),
                             (''steps'', PList []),
                             (''logs'', PList [])]
      in
      bindE (py_append (executions s) execution) (\<lambda>executions'.
      bindE (update_idea_status (save_executions (s\<lparr>executions := executions'\<rparr>))
               now3 (PStr idea_id) ''in_progress'' None) (\<lambda>(updated, s).
        Inr (exec_id, s))))"

text \<open>\<open>execution[key].append(entry)\<close> on the execution that was found.\<close>

definition append_entry :: "pyval \<Rightarrow> string \<Rightarrow> pyval \<Rightarrow> py_error + pyval" where
  "append_entry execution key entry =
     bindE (py_getitem execution key) (\<lambda>entries.
     bindE (py_append entries entry) (\<lambda>entries'.
       py_setitem execution key entries'))"

text \<open>The loops over the executions have the shape of the loop over the ideas; \<open>change\<close>
  is the body that is run on the first execution with the identifier. The loop yields
  \<open>None\<close> when it runs to its end without a match, and otherwise the execution as
  changed together with the list that holds it.\<close>

fun execution_loop ::
  "pyval list \<Rightarrow> string \<Rightarrow> (pyval \<Rightarrow> py_error + pyval)
     \<Rightarrow> py_error + (pyval \<times> pyval list) option" where
  "execution_loop [] exec_id change = Inr None"
| "execution_loop (execution # rest) exec_id change =
     (case py_getitem execution ''id'' of
        Inl e \<Rightarrow> Inl e
      | Inr v \<Rightarrow>
          if v = PStr exec_id then
            (case change execution of
               Inl e \<Rightarrow> Inl e
             | Inr execution' \<Rightarrow> Inr (Some (execution', execution' # rest)))
          else
            (case execution_loop rest exec_id change of
               Inl e \<Rightarrow> Inl e
             | Inr None \<Rightarrow> Inr None
             | Inr (Some (execution', rest')) \<Rightarrow> Inr (Some (execution', execution # rest'))))"

definition add_execution_step ::
  "asset_pool \<Rightarrow> datetime \<Rightarrow> string \<Rightarrow> string \<Rightarrow> string \<Rightarrow> py_error + (bool \<times> asset_pool)" where
  "add_execution_step s now exec_id step status =
     bindE (py_iter (executions s)) (\<lambda>items.
     bindE (execution_loop items exec_id (\<lambda>execution.
              append_entry execution ''steps''
                (PDict [(''step'', PStr step), (''status'', PStr status),
                        (''timestamp'', PStr (isoformat now))]))) (\<lambda>found.
       case found of
         None \<Rightarrow> Inr (False, s)
       | Some (execution, items') \<Rightarrow>
           Inr (True, save_executions (s\<lparr>executions := PList items'\<rparr>))))"

definition add_execution_log ::
  "asset_pool \<Rightarrow> datetime \<Rightarrow> string \<Rightarrow> string \<Rightarrow> py_error + (bool \<times> asset_pool)" where
  "add_execution_log s now exec_id log_text =
     bindE (py_iter (executions s)) (\<lambda>items.
     bindE (execution_loop items exec_id (\<lambda>execution.
              append_entry execution ''logs''
                (PDict [(''log'', PStr log_text), (''timestamp'', PStr (isoformat now))])))
       (\<lambda>found.
       case found of
         None \<Rightarrow> Inr (False, s)
       | Some (execution, items') \<Rightarrow>
           Inr (True, save_executions (s\<lparr>executions := PList items'\<rparr>))))"

text \<open>The first three statements of the body of the loop of \<open>complete_execution\<close>.\<close>

definition set_execution_status ::
  "pyval \<Rightarrow> datetime \<Rightarrow> bool \<Rightarrow> string option \<Rightarrow> py_error + pyval" where
  "set_execution_status execution now success notes =
     bindE (py_setitem execution ''status'' (PStr (if success then ''success'' else ''failed'')))
       (\<lambda>execution.
     bindE (py_setitem execution ''completed_at'' (PStr (isoformat now))) (\<lambda>execution.
       if given notes then py_setitem execution ''notes'' (opt_str notes) else Inr execution))"

text \<open>After these statements the executions are saved, and the idea that the execution
  names is updated.\<close>

definition complete_execution ::
  "asset_pool \<Rightarrow> datetime \<Rightarrow> datetime \<Rightarrow> string \<Rightarrow> bool \<Rightarrow> string option
     \<Rightarrow> py_error + (bool \<times> asset_pool)" where
  "complete_execution s now1 now2 exec_id success notes =
     bindE (py_iter (executions s)) (\<lambda>items.
     bindE (execution_loop items exec_id (\<lambda>execution.
              set_execution_status execution now1 success notes)) (\<lambda>found.
       case found of
         None \<Rightarrow> Inr (False, s)
       | Some (execution, items') \<Rightarrow>
           bindE (py_getitem execution ''idea_id'') (\<lambda>idea_id.
           bindE (update_idea_status (save_executions (s\<lparr>executions := PList items'\<rparr>))
                    now2 idea_id (if success then ''completed'' else ''failed'') notes)
             (\<lambda>(updated, s). Inr (True, s)))))"

subsection \<open>Revenues\<close>

definition add_revenue ::
  "asset_pool \<Rightarrow> datetime \<Rightarrow> datetime \<Rightarrow> string \<Rightarrow> rat \<Rightarrow> string \<Rightarrow> string option
     \<Rightarrow> py_error + (string \<times> asset_pool)" where
  "add_revenue s now1 now2 idea_id amount source notes =
     (let rev_id = ''rev-'' @ strftime now1;
          revenue = PDict [(''id'', PStr rev_id),
                           (''idea_id'', PStr idea_id),
                           (''amount'', PNum amount),
                           (''source'', PStr source),
                           (''notes'', opt_str notes),
                           (''recorded_at'', PStr (isoformat now2))]
      in
      bindE (py_append (revenues s) revenue) (\<lambda>revenues'.
        Inr (rev_id, save_revenues (s\<lparr>revenues := revenues'\<rparr>))))"

text \<open>\<open>[r for r in revenues if r['idea_id'] == idea_id]\<close>.\<close>

fun filter_idea :: "pyval list \<Rightarrow> pyval \<Rightarrow> py_error + pyval list" where
  "filter_idea [] idea_id = Inr []"
| "filter_idea (r # rest) idea_id =
     (case py_getitem r ''idea_id'' of
        Inl e \<Rightarrow> Inl e
      | Inr v \<Rightarrow>
          (case filter_idea rest idea_id of
             Inl e \<Rightarrow> Inl e
           | Inr kept \<Rightarrow> Inr (if v = idea_id then r # kept else kept)))"

text \<open>\<open>sum(r['amount'] for r in revenues)\<close>, from the running total \<open>acc\<close>.\<close>

fun sum_amounts :: "pyval list \<Rightarrow> rat \<Rightarrow> py_error + rat" where
  "sum_amounts [] acc = Inr acc"
| "sum_amounts (r # rest) acc =
     (case py_getitem r ''amount'' of
        Inl e \<Rightarrow> Inl e
      | Inr v \<Rightarrow>
          (case as_number v of
             Inl e \<Rightarrow> Inl e
           | Inr amount \<Rightarrow> sum_amounts rest (acc + amount)))"

text \<open>The dictionary \<open>by_source\<close> is keyed by whatever the sources are. A key must be
  hashable, and keys that are equal as numbers (\<open>1\<close>, \<open>1.0\<close>, \<open>True\<close>) are one key.\<close>

fun hash_key :: "pyval \<Rightarrow> py_error + pyval" where
  "hash_key (PList xs) = Inl TypeError"
| "hash_key (PDict d) = Inl TypeError"
| "hash_key (PBool b) = Inr (PNum (if b then 1 else 0))"
| "hash_key v = Inr v"

fun by_source_add :: "(pyval \<times> pyval \<times> rat) list \<Rightarrow> pyval \<Rightarrow> pyval \<Rightarrow> rat
    \<Rightarrow> (pyval \<times> pyval \<times> rat) list" where
  "by_source_add [] h source amount = [(h, source, 0 + amount)]"
| "by_source_add ((h', source', t) # rest) h source amount =
     (if h' = h then (h', source', t + amount) # rest
      else (h', source', t) # by_source_add rest h source amount)"

fun by_source_loop ::
  "pyval list \<Rightarrow> (pyval \<times> pyval \<times> rat) list \<Rightarrow> py_error + (pyval \<times> pyval \<times> rat) list" where
  "by_source_loop [] by_source = Inr by_source"
| "by_source_loop (r # rest) by_source =
     (case py_getitem r ''source'' of
        Inl e \<Rightarrow> Inl e
      | Inr source \<Rightarrow>
          (case hash_key source of
             Inl e \<Rightarrow> Inl e
           | Inr h \<Rightarrow>
               (case py_getitem r ''amount'' of
                  Inl e \<Rightarrow> Inl e
                | Inr v \<Rightarrow>
                    (case as_number v of
                       Inl e \<Rightarrow> Inl e
                     | Inr amount \<Rightarrow>
                         by_source_loop rest (by_source_add by_source h source amount)))))"

text \<open>The result of \<open>get_revenue_stats\<close>; \<open>by_source\<close> lists the sources with their totals
  in the order of their first occurrence.\<close>

record stats =
  stats_total :: rat
  stats_count :: nat
  stats_average :: rat
  stats_by_source :: "(pyval \<times> rat) list"

definition get_revenue_stats :: "asset_pool \<Rightarrow> string option \<Rightarrow> py_error + stats" where
  "get_revenue_stats s idea_id =
     bindE (if given idea_id
            then bindE (py_iter (revenues s)) (\<lambda>items.
                 bindE (filter_idea items (opt_str idea_id)) (\<lambda>kept. Inr (PList kept)))
            else Inr (revenues s)) (\<lambda>revenues.
     bindE (py_iter revenues) (\<lambda>items.
     bindE (sum_amounts items 0) (\<lambda>total_amount.
     bindE (py_len revenues) (\<lambda>n.
       let avg = (if n > 0 then total_amount / of_nat n else 0) in
     bindE (by_source_loop items []) (\<lambda>by_source.
       Inr \<lparr>stats_total = total_amount, stats_count = n, stats_average = avg,
            stats_by_source = map snd by_source\<rparr>)))))"

subsection \<open>Listing and overview\<close>

text \<open>\<open>[i for i in ideas if i.get('status') == status]\<close>, and the length of such a list.\<close>

definition filter_status :: "pyval list \<Rightarrow> pyval \<Rightarrow> py_error + pyval list" where
  "filter_status items status =
     bindE (map_err (\<lambda>i. py_get i ''status'' PNone) items) (\<lambda>found.
       Inr (map snd (filter (\<lambda>p. fst p = status) (zip found items))))"

definition count_status :: "pyval \<Rightarrow> string \<Rightarrow> py_error + nat" where
  "count_status collection status =
     bindE (py_iter collection) (\<lambda>items.
     bindE (filter_status items (PStr status)) (\<lambda>kept. Inr (length kept)))"

text \<open>\<open>sorted(xs, key=..., reverse=True)\<close> on values paired with their keys. Sorting fewer
  than two values compares nothing. Otherwise the keys must be comparable with each
  other: strings with strings, numbers with numbers. Keys that are all lists are not
  modelled (Python compares them element by element; the model raises), every other
  mix raises \<open>TypeError\<close> in Python as well.\<close>

definition the_str :: "pyval \<Rightarrow> string" where
  "the_str v = (case v of PStr s \<Rightarrow> s | _ \<Rightarrow> [])"

definition the_num :: "pyval \<Rightarrow> rat" where
  "the_num v = (case as_number v of Inl e \<Rightarrow> 0 | Inr r \<Rightarrow> r)"

definition py_sorted_reverse :: "(pyval \<times> pyval) list \<Rightarrow> py_error + pyval list" where
  "py_sorted_reverse kxs =
     (if length kxs \<le> 1 then Inr (map snd kxs)
      else if list_all (\<lambda>p. is_str (fst p)) kxs
        then Inr (sorted_reverse (map (\<lambda>p. (the_str (fst p), snd p)) kxs))
      else if list_all (\<lambda>p. is_number (fst p)) kxs
        then Inr (sorted_reverse (map (\<lambda>p. (the_num (fst p), snd p)) kxs))
      else Inl TypeError)"

text \<open>\<open>xs[:limit]\<close>: a negative limit counts from the end.\<close>

definition py_take :: "int \<Rightarrow> 'a list \<Rightarrow> 'a list" where
  "py_take limit xs =
     (if limit \<ge> 0 then take (nat limit) xs else take (length xs - nat (- limit)) xs)"

definition list_ideas :: "asset_pool \<Rightarrow> string option \<Rightarrow> int \<Rightarrow> py_error + pyval list" where
  "list_ideas s status limit =
     bindE (py_iter (ideas s)) (\<lambda>items.
     bindE (if given status then filter_status items (opt_str status) else Inr items) (\<lambda>items.
     bindE (map_err (\<lambda>x. py_get x ''created_at'' (PStr [])) items) (\<lambda>keys.
     bindE (py_sorted_reverse (zip keys items)) (\<lambda>sorted_items.
       Inr (py_take limit sorted_items)))))"

record overview =
  ideas_total :: nat
  ideas_pending :: nat
  ideas_in_progress :: nat
  ideas_completed :: nat
  ideas_failed :: nat
  success_rate :: rat
  revenue :: stats
  executions_total :: nat
  executions_in_progress :: nat
  executions_success :: nat
  executions_failed :: nat

definition get_overview :: "asset_pool \<Rightarrow> py_error + overview" where
  "get_overview s =
     bindE (py_len (ideas s)) (\<lambda>n_ideas.
     bindE (count_status (ideas s) ''pending'') (\<lambda>pending.
     bindE (count_status (ideas s) ''in_progress'') (\<lambda>in_progress.
     bindE (count_status (ideas s) ''completed'') (\<lambda>completed.
     bindE (count_status (ideas s) ''failed'') (\<lambda>failed.
       let finished = completed + failed;
           rate = (if finished > 0 then of_nat completed / of_nat finished else 0) in
     bindE (get_revenue_stats s None) (\<lambda>revenue_stats.
     bindE (py_len (executions s)) (\<lambda>e_total.
     bindE (count_status (executions s) ''in_progress'') (\<lambda>e_in_progress.
     bindE (count_status (executions s) ''success'') (\<lambda>e_success.
     bindE (count_status (executions s) ''failed'') (\<lambda>e_failed.
       Inr \<lparr>ideas_total = n_ideas, ideas_pending = pending, ideas_in_progress = in_progress,
            ideas_completed = completed, ideas_failed = failed, success_rate = rate,
            revenue = revenue_stats, executions_total = e_total,
            executions_in_progress = e_in_progress, executions_success = e_success,
            executions_failed = e_failed\<rparr>))))))))))"

subsection \<open>Sequences of operations\<close>

text \<open>A call of a public method with its arguments (defaults written out) and the clock
  readings it consumes. The idea passed to \<open>add_idea\<close> is a dictionary.\<close>

datatype call =
    AddIdea datetime datetime "(string \<times> pyval) list"
  | GetIdea string
  | ListIdeas "string option" int
  | UpdateIdeaStatus datetime string string "string option"
  | StartExecution datetime datetime datetime string
  | AddExecutionStep datetime string string string
  | AddExecutionLog datetime string string
  | CompleteExecution datetime datetime string bool "string option"
  | AddRevenue datetime datetime string rat string "string option"
  | GetRevenueStats "string option"
  | GetOverview

datatype result =
    RStr string
  | RBool bool
  | RVal pyval
  | RList "pyval list"
  | RStats stats
  | ROverview overview

fun step :: "asset_pool \<Rightarrow> call \<Rightarrow> py_error + (result \<times> asset_pool)" where
  "step s (AddIdea now1 now2 idea) =
     bindE (add_idea s now1 now2 (PDict idea)) (\<lambda>(r, s'). Inr (RStr r, s'))"
| "step s (GetIdea idea_id) =
     bindE (get_idea s idea_id) (\<lambda>r. Inr (RVal r, s))"
| "step s (ListIdeas status limit) =
     bindE (list_ideas s status limit) (\<lambda>r. Inr (RList r, s))"
| "step s (UpdateIdeaStatus now idea_id status notes) =
     bindE (update_idea_status s now (PStr idea_id) status notes) (\<lambda>(r, s'). Inr (RBool r, s'))"
| "step s (StartExecution now1 now2 now3 idea_id) =
     bindE (start_execution s now1 now2 now3 idea_id) (\<lambda>(r, s'). Inr (RStr r, s'))"
| "step s (AddExecutionStep now exec_id step_text status) =
     bindE (add_execution_step s now exec_id step_text status) (\<lambda>(r, s'). Inr (RBool r, s'))"
| "step s (AddExecutionLog now exec_id log_text) =
     bindE (add_execution_log s now exec_id log_text) (\<lambda>(r, s'). Inr (RBool r, s'))"
| "step s (CompleteExecution now1 now2 exec_id success notes) =
     bindE (complete_execution s now1 now2 exec_id success notes) (\<lambda>(r, s'). Inr (RBool r, s'))"
| "step s (AddRevenue now1 now2 idea_id amount source notes) =
     bindE (add_revenue s now1 now2 idea_id amount source notes) (\<lambda>(r, s'). Inr (RStr r, s'))"
| "step s (GetRevenueStats idea_id) =
     bindE (get_revenue_stats s idea_id) (\<lambda>r. Inr (RStats r, s))"
| "step s GetOverview =
     bindE (get_overview s) (\<lambda>r. Inr (ROverview r, s))"


subsection \<open>Well-formed records\<close>










text \<open>The fields of the \<open>k\<close>-th execution and of the \<open>k\<close>-th idea of a store.\<close>

definition record_field :: "pyval \<Rightarrow> nat \<Rightarrow> string \<Rightarrow> pyval option" where
  "record_field collection k field =
     (case collection of
        PList xs \<Rightarrow>
          (if k < length xs then (case xs ! k of PDict d \<Rightarrow> map_of d field | _ \<Rightarrow> None)
           else None)
      | _ \<Rightarrow> None)"

subsection \<open>Predicates of the statements and proofs\<close>

text \<open>A record from which the loops can read an identifier.\<close>

definition has_id :: "pyval \<Rightarrow> bool" where
  "has_id v = (case py_getitem v ''id'' of Inl e \<Rightarrow> False | Inr i \<Rightarrow> True)"

text \<open>What \<open>update_idea_status\<close> makes of the idea it finds.\<close>

definition updated_idea ::
  "(string \<times> pyval) list \<Rightarrow> datetime \<Rightarrow> string \<Rightarrow> string option \<Rightarrow> (string \<times> pyval) list" where
  "updated_idea d now status notes =
     (let d = dict_set d ''status'' (PStr status);
          d = dict_set d ''updated_at'' (PStr (isoformat now))
      in if given notes then dict_set d ''notes'' (opt_str notes) else d)"

text \<open>A status that ends an execution, and a call of \<open>complete_execution\<close> with a given
  identifier (as the field \<open>id\<close> of a record holds it).\<close>

definition terminal :: "pyval option \<Rightarrow> bool" where
  "terminal status = (status = Some (PStr ''success'') \<or> status = Some (PStr ''failed''))"

fun completes :: "call \<Rightarrow> pyval option \<Rightarrow> bool" where
  "completes (CompleteExecution now1 now2 exec_id success notes) ident = (ident = Some (PStr exec_id))"
| "completes _ ident = False"


text \<open>What one call keeps of the executions that exist before it: their identifiers, a
  terminal status as a terminal status and, unless the call is \<open>complete_execution\<close> with
  the identifier of the execution, its status and completion time.\<close>

definition kept :: "call \<Rightarrow> pyval \<Rightarrow> pyval \<Rightarrow> bool" where
  "kept c before after =
     (\<exists>es es'. before = PList es \<and> after = PList es' \<and> length es \<le> length es'
        \<and> (\<forall>k < length es.
              record_field after k ''id'' = record_field before k ''id''
            \<and> (terminal (record_field before k ''status'') \<longrightarrow>
                 terminal (record_field after k ''status''))
            \<and> (\<not> completes c (record_field before k ''id'') \<longrightarrow>
                 record_field after k ''status'' = record_field before k ''status''
               \<and> record_field after k ''completed_at'' = record_field before k ''completed_at'')))"

section \<open>Verification\<close>

subsection \<open>Auxiliary facts about values\<close>

lemma field_ok_number:
  "field_ok is_number d k \<Longrightarrow>
     \<exists>r. as_number (case map_of d k of None \<Rightarrow> PNum c | Some v \<Rightarrow> v) = Inr r"
  by (auto simp: field_ok_def is_number_def split: option.splits pyval.splits)

lemma field_ok_str:
  "field_ok is_str d k \<Longrightarrow>
     \<exists>s. py_lower (case map_of d k of None \<Rightarrow> PStr c | Some v \<Rightarrow> v) = Inr s"
  by (auto simp: field_ok_def is_str_def split: option.splits pyval.splits)

lemma descriptor_ok_cases:
  assumes "descriptor_ok project"
  obtains d where "project = PDict d"
  using assms by (cases project) auto

lemma map_of_dict_set: "map_of (dict_set d k v) k' = (if k' = k then Some v else map_of d k')"
  by (induction d) auto

lemmas eval_defs =
  bindE_def field_ok_def is_number_def is_str_def lower_char_def any_in_def
  analyze_potential_def stars_score_def trending_score_def tech_score_def
  monetization_score_def business_score_def potential_of_def ai_keywords_def
  hot_languages_def monetization_keywords_def
  analyze_suitable_types_def consulting_keywords_def training_keywords_def
  customization_keywords_def

subsection \<open>The scorer\<close>

text \<open>On an accepted descriptor the scorer returns, and the score is the sum of the five
  bands of the values it read.\<close>

lemma analyze_potential_ok:
  assumes "descriptor_ok (PDict d)"
  obtains stars trending language description where
    "as_number (case map_of d ''stars'' of None \<Rightarrow> PNum 0 | Some v \<Rightarrow> v) = Inr stars"
    "as_number (case map_of d ''trending_stars'' of None \<Rightarrow> PNum 0 | Some v \<Rightarrow> v) = Inr trending"
    "py_lower (case map_of d ''language'' of None \<Rightarrow> PStr [] | Some v \<Rightarrow> v) = Inr language"
    "py_lower (case map_of d ''description'' of None \<Rightarrow> PStr [] | Some v \<Rightarrow> v) = Inr description"
    "analyze_potential (PDict d) =
       Inr (potential_of (stars_score stars + trending_score trending
              + tech_score language description
              + monetization_score description + business_score description),
            stars_score stars + trending_score trending + tech_score language description
              + monetization_score description + business_score description)"
proof -
  from assms obtain stars where
    1: "as_number (case map_of d ''stars'' of None \<Rightarrow> PNum 0 | Some v \<Rightarrow> v) = Inr stars"
    using field_ok_number by fastforce
  from assms obtain trending where
    2: "as_number (case map_of d ''trending_stars'' of None \<Rightarrow> PNum 0 | Some v \<Rightarrow> v) = Inr trending"
    using field_ok_number by fastforce
  from assms obtain language where
    3: "py_lower (case map_of d ''language'' of None \<Rightarrow> PStr [] | Some v \<Rightarrow> v) = Inr language"
    using field_ok_str by fastforce
  from assms obtain description where
    4: "py_lower (case map_of d ''description'' of None \<Rightarrow> PStr [] | Some v \<Rightarrow> v) = Inr description"
    using field_ok_str by fastforce
  have "analyze_potential (PDict d) =
       Inr (potential_of (stars_score stars + trending_score trending
              + tech_score language description
              + monetization_score description + business_score description),
            stars_score stars + trending_score trending + tech_score language description
              + monetization_score description + business_score description)"
    by (simp add: analyze_potential_def bindE_def 1 2 3 4 Let_def)
  with 1 2 3 4 show thesis using that by blast
qed

lemma analyze_potential_total:
  assumes "descriptor_ok project"
  shows "\<exists>tier score. analyze_potential project = Inr (tier, score)"
proof -
  from assms obtain d where d: "project = PDict d" by (rule descriptor_ok_cases)
  with assms have "descriptor_ok (PDict d)" by simp
  then show ?thesis unfolding d by (rule analyze_potential_ok) blast
qed

lemma analyze_potential_tier:
  assumes "analyze_potential project = Inr (tier, score)"
  shows "tier = potential_of score"
  using assms
  by (auto simp: analyze_potential_def bindE_def Let_def split: sum.splits)

text \<open>
  Claim C3. The stars band of the scorer contributes exactly 30 when the stars are above
  1000, 25 for stars in (500, 1000] (so exactly 1000 stars give 25), 20 for (100, 500],
  15 for (50, 100] and 10 otherwise. Stated on the score that \<open>analyze_potential\<close>
  returns: for an accepted descriptor there is one remainder \<open>rest\<close>, the points of the
  other four bands, such that setting the stars to any number \<open>s\<close> gives the score
  \<open>band + rest\<close> with the band of \<open>s\<close>; a descriptor without stars counts as 0 stars.
\<close>

theorem popularity_band:
  assumes "descriptor_ok (PDict d)"
  shows "\<exists>rest.
          (map_of d ''stars'' = None \<longrightarrow>
             (\<exists>tier. analyze_potential (PDict d) = Inr (tier, 10 + rest)))
        \<and> (\<forall>s. \<exists>tier band.
             analyze_potential (PDict (dict_set d ''stars'' (PNum s))) = Inr (tier, band + rest)
           \<and> (1000 < s \<longrightarrow> band = 30)
           \<and> (500 < s \<and> s \<le> 1000 \<longrightarrow> band = 25)
           \<and> (100 < s \<and> s \<le> 500 \<longrightarrow> band = 20)
           \<and> (50 < s \<and> s \<le> 100 \<longrightarrow> band = 15)
           \<and> (s \<le> 50 \<longrightarrow> band = 10))"
proof -
  from assms obtain stars trending language description where
    t: "as_number (case map_of d ''trending_stars'' of None \<Rightarrow> PNum 0 | Some v \<Rightarrow> v) = Inr trending"
    and l: "py_lower (case map_of d ''language'' of None \<Rightarrow> PStr [] | Some v \<Rightarrow> v) = Inr language"
    and dd: "py_lower (case map_of d ''description'' of None \<Rightarrow> PStr [] | Some v \<Rightarrow> v) = Inr description"
    and s0: "as_number (case map_of d ''stars'' of None \<Rightarrow> PNum 0 | Some v \<Rightarrow> v) = Inr stars"
    by (rule analyze_potential_ok)
  let ?rest = "trending_score trending + tech_score language description
              + monetization_score description + business_score description"
  have a: "map_of d ''stars'' = None \<longrightarrow>
             (\<exists>tier. analyze_potential (PDict d) = Inr (tier, 10 + ?rest))"
    using t l dd by (simp add: analyze_potential_def bindE_def Let_def stars_score_def)
  have b: "\<exists>tier. analyze_potential (PDict (dict_set d ''stars'' (PNum s)))
                   = Inr (tier, stars_score s + ?rest)" for s
    using t l dd by (simp add: analyze_potential_def bindE_def Let_def map_of_dict_set)
  have c: "(1000 < s \<longrightarrow> stars_score s = 30)
           \<and> (500 < s \<and> s \<le> 1000 \<longrightarrow> stars_score s = 25)
           \<and> (100 < s \<and> s \<le> 500 \<longrightarrow> stars_score s = 20)
           \<and> (50 < s \<and> s \<le> 100 \<longrightarrow> stars_score s = 15)
           \<and> (s \<le> 50 \<longrightarrow> stars_score s = 10)" for s
    by (simp add: stars_score_def)
  show ?thesis
  proof (intro exI[of _ ?rest] conjI allI)
    show "map_of d ''stars'' = None \<longrightarrow>
            (\<exists>tier. analyze_potential (PDict d) = Inr (tier, 10 + ?rest))"
      by (rule a)
  next
    fix s
    from b[of s] obtain tier where
      "analyze_potential (PDict (dict_set d ''stars'' (PNum s))) = Inr (tier, stars_score s + ?rest)" ..
    with c[of s] show "\<exists>tier band.
             analyze_potential (PDict (dict_set d ''stars'' (PNum s))) = Inr (tier, band + ?rest)
           \<and> (1000 < s \<longrightarrow> band = 30)
           \<and> (500 < s \<and> s \<le> 1000 \<longrightarrow> band = 25)
           \<and> (100 < s \<and> s \<le> 500 \<longrightarrow> band = 20)
           \<and> (50 < s \<and> s \<le> 100 \<longrightarrow> band = 15)
           \<and> (s \<le> 50 \<longrightarrow> band = 10)"
      by blast
  qed
qed

text \<open>The theorem at a descriptor with exactly 1000 stars.\<close>

theorem popularity_band_witness:
  "descriptor_ok (PDict [(''description'', PStr ''An AI agent''), (''stars'', PNum 1000)])
   \<and> (\<exists>rest.
          (map_of [(''description'', PStr ''An AI agent''), (''stars'', PNum 1000)] ''stars'' = None \<longrightarrow>
             (\<exists>tier. analyze_potential (PDict [(''description'', PStr ''An AI agent''), (''stars'', PNum 1000)])
                = Inr (tier, 10 + rest)))
        \<and> (\<forall>s. \<exists>tier band.
             analyze_potential (PDict (dict_set [(''description'', PStr ''An AI agent''), (''stars'', PNum 1000)]
                 ''stars'' (PNum s))) = Inr (tier, band + rest)
           \<and> (1000 < s \<longrightarrow> band = 30)
           \<and> (500 < s \<and> s \<le> 1000 \<longrightarrow> band = 25)
           \<and> (100 < s \<and> s \<le> 500 \<longrightarrow> band = 20)
           \<and> (50 < s \<and> s \<le> 100 \<longrightarrow> band = 15)
           \<and> (s \<le> 50 \<longrightarrow> band = 10)))"
proof -
  have h: "descriptor_ok (PDict [(''description'', PStr ''An AI agent''), (''stars'', PNum 1000)])"
    by (simp add: field_ok_def is_number_def is_str_def)
  from h popularity_band[OF h] show ?thesis by (rule conjI)
qed

text \<open>
  Claim C4. The tier returned by the scorer is high if and only if the score is at least
  70, medium if and only if the score is at least 50 and below 70, and low if and only if
  the score is below 50; so 70 is high, 69 and 50 are medium and 49 is low. The scorer
  returns on every accepted descriptor.
\<close>

theorem tier_boundaries:
  "(descriptor_ok project \<longrightarrow> (\<exists>tier score. analyze_potential project = Inr (tier, score)))
   \<and> (\<forall>tier score. analyze_potential project = Inr (tier, score) \<longrightarrow>
         (tier = High \<longleftrightarrow> score \<ge> 70)
       \<and> (tier = Medium \<longleftrightarrow> 50 \<le> score \<and> score < 70)
       \<and> (tier = Low \<longleftrightarrow> score < 50))
   \<and> potential_of 70 = High \<and> potential_of 69 = Medium
   \<and> potential_of 50 = Medium \<and> potential_of 49 = Low"
proof (intro conjI allI impI)
  assume "descriptor_ok project"
  then show "\<exists>tier score. analyze_potential project = Inr (tier, score)"
    by (rule analyze_potential_total)
next
  fix tier score
  assume a: "analyze_potential project = Inr (tier, score)"
  have t: "tier = potential_of score" using a by (rule analyze_potential_tier)
  show "tier = High \<longleftrightarrow> score \<ge> 70" by (simp add: t potential_of_def)
  show "tier = Medium \<longleftrightarrow> 50 \<le> score \<and> score < 70" by (auto simp add: t potential_of_def)
  show "tier = Low \<longleftrightarrow> score < 50" by (auto simp add: t potential_of_def)
qed (simp_all add: potential_of_def)

text \<open>A descriptor that scores exactly 70: 30 for the stars, 25 for the trending stars
  and 15 for an AI keyword.\<close>

theorem tier_boundaries_witness:
  "descriptor_ok
     (PDict [(''stars'', PNum 2000), (''trending_stars'', PNum 150), (''description'', PStr ''Claude'')])
   \<and> analyze_potential
        (PDict [(''stars'', PNum 2000), (''trending_stars'', PNum 150), (''description'', PStr ''Claude'')])
       = Inr (High, 70)
   \<and> ((High = High) \<longleftrightarrow> (70::int) \<ge> 70)"
  using tier_boundaries
    [of "PDict [(''stars'', PNum 2000), (''trending_stars'', PNum 150), (''description'', PStr ''Claude'')]"]
  by (simp add: eval_defs)

subsection \<open>The suitable idea types\<close>

lemma suitable_types_nonempty:
  assumes "analyze_suitable_types project = Inr ts"
  shows "ts \<noteq> []"
  using assms
  by (auto simp: analyze_suitable_types_def bindE_def Let_def split: sum.splits if_splits)

lemma suitable_types_total:
  assumes "descriptor_ok project"
  shows "\<exists>ts. analyze_suitable_types project = Inr ts"
proof -
  from assms obtain d where d: "project = PDict d" by (rule descriptor_ok_cases)
  from assms d obtain stars where
    1: "as_number (case map_of d ''stars'' of None \<Rightarrow> PNum 0 | Some v \<Rightarrow> v) = Inr stars"
    using field_ok_number by fastforce
  from assms d obtain language where
    3: "py_lower (case map_of d ''language'' of None \<Rightarrow> PStr [] | Some v \<Rightarrow> v) = Inr language"
    using field_ok_str by fastforce
  from assms d obtain description where
    4: "py_lower (case map_of d ''description'' of None \<Rightarrow> PStr [] | Some v \<Rightarrow> v) = Inr description"
    using field_ok_str by fastforce
  show ?thesis
    by (simp add: d analyze_suitable_types_def bindE_def 1 3 4 Let_def)
qed

lemma suitable_types_default:
  assumes ok: "descriptor_ok (PDict d)"
    and stars: "map_of d ''stars'' = Some (PNum 10)"
    and low: "py_lower (case map_of d ''description'' of None \<Rightarrow> PStr [] | Some v \<Rightarrow> v) = Inr description"
    and no1: "\<not> any_in consulting_keywords description"
    and no2: "\<not> any_in training_keywords description"
    and no3: "\<not> any_in customization_keywords description"
  shows "analyze_suitable_types (PDict d) = Inr [''deployment_service'', ''training'']"
proof -
  from ok obtain language where
    3: "py_lower (case map_of d ''language'' of None \<Rightarrow> PStr [] | Some v \<Rightarrow> v) = Inr language"
    using field_ok_str by fastforce
  show ?thesis
    by (simp add: analyze_suitable_types_def bindE_def stars low 3 no1 no2 no3 Let_def)
qed

text \<open>
  Claim C6. \<open>_analyze_suitable_types\<close> never returns an empty result: it returns on every
  accepted descriptor, and whatever it returns is not empty. For a descriptor with 10
  stars whose lowered description contains no keyword of the three keyword rules, the
  result is exactly deployment service and training.
\<close>

theorem suitable_types_never_empty:
  "(descriptor_ok project \<longrightarrow> (\<exists>ts. analyze_suitable_types project = Inr ts))
   \<and> (\<forall>ts. analyze_suitable_types project = Inr ts \<longrightarrow> ts \<noteq> [])
   \<and> (\<forall>d description.
         project = PDict d \<and> descriptor_ok (PDict d)
         \<and> map_of d ''stars'' = Some (PNum 10)
         \<and> py_lower (case map_of d ''description'' of None \<Rightarrow> PStr [] | Some v \<Rightarrow> v) = Inr description
         \<and> \<not> any_in consulting_keywords description
         \<and> \<not> any_in training_keywords description
         \<and> \<not> any_in customization_keywords description
         \<longrightarrow> analyze_suitable_types project = Inr [''deployment_service'', ''training''])"
  using suitable_types_total suitable_types_nonempty suitable_types_default by blast

theorem suitable_types_never_empty_witness:
  "descriptor_ok (PDict [(''name'', PStr ''me/Notes''), (''stars'', PNum 10), (''description'', PStr ''My Notes'')])
   \<and> map_of [(''name'', PStr ''me/Notes''), (''stars'', PNum 10), (''description'', PStr ''My Notes'')] ''stars''
       = Some (PNum 10)
   \<and> py_lower (PStr ''My Notes'') = Inr ''my notes''
   \<and> \<not> any_in consulting_keywords ''my notes''
   \<and> \<not> any_in training_keywords ''my notes''
   \<and> \<not> any_in customization_keywords ''my notes''
   \<and> analyze_suitable_types
         (PDict [(''name'', PStr ''me/Notes''), (''stars'', PNum 10), (''description'', PStr ''My Notes'')])
       = Inr [''deployment_service'', ''training'']
   \<and> [''deployment_service'', ''training''] \<noteq> ([] :: string list)"
  using suitable_types_never_empty
    [of "PDict [(''name'', PStr ''me/Notes''), (''stars'', PNum 10), (''description'', PStr ''My Notes'')]"]
  by (simp add: eval_defs)

subsection \<open>The generator\<close>

lemma catalog_ranges:
  assumes "(ty, t) \<in> set IDEA_TEMPLATES"
  shows "fst (cost_range t) \<le> snd (cost_range t) \<and> fst (time_range t) \<le> snd (time_range t)"
  using assms by (auto simp: IDEA_TEMPLATES_def)

lemma adjust_for_user_none:
  "\<not> truthy preferences \<Longrightarrow>
   adjust_for_user t preferences =
     Inr (fst (cost_range t), fst (income_range t), fst (time_range t))"
  by (simp add: adjust_for_user_def)

lemma adjust_for_user_range:
  assumes "adjust_for_user t preferences = Inr (cost, income, time)"
    and "fst (cost_range t) \<le> snd (cost_range t)" and "fst (time_range t) \<le> snd (time_range t)"
  shows "fst (cost_range t) \<le> cost \<and> cost \<le> snd (cost_range t)
         \<and> fst (time_range t) \<le> time \<and> time \<le> snd (time_range t)"
  using assms
  by (auto simp: adjust_for_user_def bindE_def Let_def split: if_splits sum.splits)

lemma any_skill_total: "list_all is_str skills \<Longrightarrow> \<exists>b. any_skill skills = Inr b"
  by (induction skills) (auto simp: is_str_def split: pyval.splits)

lemma adjust_for_user_total:
  assumes "preferences_ok preferences"
  shows "\<exists>r. adjust_for_user t preferences = Inr r"
proof (cases "truthy preferences")
  case False
  then show ?thesis by (simp add: adjust_for_user_none)
next
  case True
  with assms obtain d where d: "preferences = PDict d" by (cases preferences) auto
  from assms d obtain budget where
    1: "as_number (case map_of d ''budget'' of None \<Rightarrow> PNum 1000 | Some v \<Rightarrow> v) = Inr budget"
    using field_ok_number by fastforce
  from assms d obtain time_available where
    2: "as_number (case map_of d ''time_available'' of None \<Rightarrow> PNum 2 | Some v \<Rightarrow> v) = Inr time_available"
    using field_ok_number by fastforce
  from assms d have "\<exists>skills. py_iter (case map_of d ''skills'' of None \<Rightarrow> PList [] | Some v \<Rightarrow> v) = Inr skills
       \<and> list_all is_str skills"
    by (auto simp: field_ok_def split: option.splits pyval.splits)
  then obtain skills hit where
    3: "py_iter (case map_of d ''skills'' of None \<Rightarrow> PList [] | Some v \<Rightarrow> v) = Inr skills"
    and 4: "any_skill skills = Inr hit"
    using any_skill_total by blast
  show ?thesis using True
    by (simp add: d adjust_for_user_def bindE_def 1 2 3 4 Let_def)
qed

lemma generate_loop_fields:
  assumes "generate_loop types preferences project_name project_url = Inr idea_list"
    and "idea \<in> set idea_list"
  shows "\<exists>ty t cost income time.
           ty \<in> set types \<and> map_of IDEA_TEMPLATES ty = Some t
         \<and> adjust_for_user t preferences = Inr (cost, income, time)
         \<and> idea = PDict [(''type'', PStr ty), (''cost'', PNum cost),
                          (''expected_income'', PNum income), (''time_needed'', PNum time),
                          (''project'', PStr project_name), (''project_url'', project_url)]"
  using assms
proof (induction types arbitrary: idea_list)
  case Nil
  then show ?case by simp
next
  case (Cons ty types)
  show ?case
  proof (cases "map_of IDEA_TEMPLATES ty")
    case None
    with Cons.prems have "generate_loop types preferences project_name project_url = Inr idea_list"
      by simp
    from Cons.IH[OF this Cons.prems(2)] show ?thesis by auto
  next
    case (Some t)
    with Cons.prems(1) obtain cost income time rest where
      a: "adjust_for_user t preferences = Inr (cost, income, time)"
      and r: "generate_loop types preferences project_name project_url = Inr rest"
      and i: "idea_list = PDict [(''type'', PStr ty), (''cost'', PNum cost),
                          (''expected_income'', PNum income), (''time_needed'', PNum time),
                          (''project'', PStr project_name), (''project_url'', project_url)] # rest"
      by (auto split: sum.splits)
    from Cons.prems(2) i consider
      "idea = PDict [(''type'', PStr ty), (''cost'', PNum cost),
                          (''expected_income'', PNum income), (''time_needed'', PNum time),
                          (''project'', PStr project_name), (''project_url'', project_url)]"
      | "idea \<in> set rest" by auto
    then show ?thesis
    proof cases
      case 1
      with Some a show ?thesis by auto
    next
      case 2
      from Cons.IH[OF r 2] show ?thesis by auto
    qed
  qed
qed

lemma generate_loop_total:
  assumes "preferences_ok preferences"
  shows "\<exists>idea_list. generate_loop types preferences project_name project_url = Inr idea_list"
proof (induction types)
  case Nil
  then show ?case by simp
next
  case (Cons ty types)
  then obtain rest where r: "generate_loop types preferences project_name project_url = Inr rest" ..
  show ?case
  proof (cases "map_of IDEA_TEMPLATES ty")
    case None
    with r show ?thesis by simp
  next
    case (Some t)
    from adjust_for_user_total[OF assms, of t] obtain c i tm where
      "adjust_for_user t preferences = Inr (c, i, tm)" by (metis prod_cases3)
    with Some r show ?thesis by simp
  qed
qed

lemma generate_ideas_total:
  assumes "project_ok project" and "preferences_ok preferences"
  shows "\<exists>idea_list. generate_ideas project preferences = Inr idea_list"
proof -
  from assms(1) have ok: "descriptor_ok project" by (simp add: project_ok_def)
  then obtain d where d: "project = PDict d" by (rule descriptor_ok_cases)
  from assms(1) d have "field_ok is_str d ''name''" by (simp add: project_ok_def)
  then obtain n where
    n: "py_split_last (case map_of d ''name'' of None \<Rightarrow> PStr [] | Some v \<Rightarrow> v) = Inr n"
    by (auto simp: field_ok_def is_str_def split: option.splits pyval.splits)
  from suitable_types_total[OF ok] d obtain ts where
    ts: "analyze_suitable_types (PDict d) = Inr ts" by auto
  from generate_loop_total[OF assms(2)] show ?thesis
    by (simp add: d generate_ideas_def bindE_def n ts)
qed

lemma generate_ideas_fields:
  assumes "generate_ideas project preferences = Inr idea_list" and "idea \<in> set idea_list"
  shows "\<exists>ty t cost income time d.
           map_of IDEA_TEMPLATES ty = Some t
         \<and> adjust_for_user t preferences = Inr (cost, income, time)
         \<and> idea = PDict d \<and> map_of d ''type'' = Some (PStr ty)
         \<and> map_of d ''cost'' = Some (PNum cost)
         \<and> map_of d ''expected_income'' = Some (PNum income)
         \<and> map_of d ''time_needed'' = Some (PNum time)"
proof -
  from assms(1) obtain ts n u where
    "generate_loop ts preferences n u = Inr idea_list"
    by (auto simp: generate_ideas_def bindE_def split: sum.splits)
  from generate_loop_fields[OF this assms(2)] show ?thesis by auto
qed

text \<open>
  Claim C7. For every template of the catalog and every preference input, the cost and
  the time needed that \<open>_adjust_for_user\<close> computes, and that \<open>generate_ideas\<close> stores in
  the idea of that template's type, lie between the template's minimum and maximum,
  inclusive; without preferences (\<open>None\<close>, or an empty dictionary) the cost, the expected
  income and the time needed are the template's minima. Both functions return on
  accepted inputs. The bounds hold for any template whose minima do not exceed its
  maxima, as those of the catalog do.
\<close>

theorem generate_within_template_ranges:
  "(\<forall>(ty, t) \<in> set IDEA_TEMPLATES.
      (preferences_ok preferences \<longrightarrow> (\<exists>r. adjust_for_user t preferences = Inr r))
    \<and> (\<forall>cost income time. adjust_for_user t preferences = Inr (cost, income, time) \<longrightarrow>
          fst (cost_range t) \<le> cost \<and> cost \<le> snd (cost_range t)
        \<and> fst (time_range t) \<le> time \<and> time \<le> snd (time_range t)
        \<and> (\<not> truthy preferences \<longrightarrow>
              cost = fst (cost_range t) \<and> income = fst (income_range t)
            \<and> time = fst (time_range t))))
   \<and> (project_ok project \<and> preferences_ok preferences \<longrightarrow>
        (\<exists>idea_list. generate_ideas project preferences = Inr idea_list))
   \<and> (\<forall>idea_list. generate_ideas project preferences = Inr idea_list \<longrightarrow>
        (\<forall>idea \<in> set idea_list. \<exists>d ty t cost income time.
            idea = PDict d \<and> map_of d ''type'' = Some (PStr ty)
          \<and> map_of IDEA_TEMPLATES ty = Some t
          \<and> map_of d ''cost'' = Some (PNum cost)
          \<and> map_of d ''expected_income'' = Some (PNum income)
          \<and> map_of d ''time_needed'' = Some (PNum time)
          \<and> fst (cost_range t) \<le> cost \<and> cost \<le> snd (cost_range t)
          \<and> fst (time_range t) \<le> time \<and> time \<le> snd (time_range t)
          \<and> (\<not> truthy preferences \<longrightarrow>
                cost = fst (cost_range t) \<and> income = fst (income_range t)
              \<and> time = fst (time_range t))))
   \<and> (\<forall>t cost income time.
          fst (cost_range t) \<le> snd (cost_range t) \<and> fst (time_range t) \<le> snd (time_range t)
        \<and> adjust_for_user t preferences = Inr (cost, income, time) \<longrightarrow>
          fst (cost_range t) \<le> cost \<and> cost \<le> snd (cost_range t)
        \<and> fst (time_range t) \<le> time \<and> time \<le> snd (time_range t))"
proof (intro conjI)
  show "\<forall>(ty, t) \<in> set IDEA_TEMPLATES.
      (preferences_ok preferences \<longrightarrow> (\<exists>r. adjust_for_user t preferences = Inr r))
    \<and> (\<forall>cost income time. adjust_for_user t preferences = Inr (cost, income, time) \<longrightarrow>
          fst (cost_range t) \<le> cost \<and> cost \<le> snd (cost_range t)
        \<and> fst (time_range t) \<le> time \<and> time \<le> snd (time_range t)
        \<and> (\<not> truthy preferences \<longrightarrow>
              cost = fst (cost_range t) \<and> income = fst (income_range t)
            \<and> time = fst (time_range t)))"
  proof (intro ballI, clarify, intro conjI allI impI)
    fix ty t
    assume "preferences_ok preferences"
    then show "\<exists>r. adjust_for_user t preferences = Inr r" by (rule adjust_for_user_total)
  next
    fix ty t cost income time
    assume m: "(ty, t) \<in> set IDEA_TEMPLATES"
      and a: "adjust_for_user t preferences = Inr (cost, income, time)"
    from adjust_for_user_range[OF a] catalog_ranges[OF m]
    show "fst (cost_range t) \<le> cost" "cost \<le> snd (cost_range t)"
      "fst (time_range t) \<le> time" "time \<le> snd (time_range t)" by simp_all
    assume "\<not> truthy preferences"
    from adjust_for_user_none[OF this, of t] a
    show "cost = fst (cost_range t)" "income = fst (income_range t)" "time = fst (time_range t)"
      by simp_all
  qed
next
  show "project_ok project \<and> preferences_ok preferences \<longrightarrow>
        (\<exists>idea_list. generate_ideas project preferences = Inr idea_list)"
    using generate_ideas_total by blast
next
  show "\<forall>idea_list. generate_ideas project preferences = Inr idea_list \<longrightarrow>
        (\<forall>idea \<in> set idea_list. \<exists>d ty t cost income time.
            idea = PDict d \<and> map_of d ''type'' = Some (PStr ty)
          \<and> map_of IDEA_TEMPLATES ty = Some t
          \<and> map_of d ''cost'' = Some (PNum cost)
          \<and> map_of d ''expected_income'' = Some (PNum income)
          \<and> map_of d ''time_needed'' = Some (PNum time)
          \<and> fst (cost_range t) \<le> cost \<and> cost \<le> snd (cost_range t)
          \<and> fst (time_range t) \<le> time \<and> time \<le> snd (time_range t)
          \<and> (\<not> truthy preferences \<longrightarrow>
                cost = fst (cost_range t) \<and> income = fst (income_range t)
              \<and> time = fst (time_range t)))"
  proof (intro allI impI ballI)
    fix idea_list idea
    assume g: "generate_ideas project preferences = Inr idea_list" and i: "idea \<in> set idea_list"
    from generate_ideas_fields[OF g i] obtain ty t cost income time d where
      t: "map_of IDEA_TEMPLATES ty = Some t"
      and a: "adjust_for_user t preferences = Inr (cost, income, time)"
      and d: "idea = PDict d" "map_of d ''type'' = Some (PStr ty)"
         "map_of d ''cost'' = Some (PNum cost)"
         "map_of d ''expected_income'' = Some (PNum income)"
         "map_of d ''time_needed'' = Some (PNum time)"
      by blast
    from t have m: "(ty, t) \<in> set IDEA_TEMPLATES" by (rule map_of_SomeD)
    from adjust_for_user_range[OF a] catalog_ranges[OF m]
    have r: "fst (cost_range t) \<le> cost \<and> cost \<le> snd (cost_range t)
          \<and> fst (time_range t) \<le> time \<and> time \<le> snd (time_range t)" by simp
    have n: "\<not> truthy preferences \<longrightarrow>
                cost = fst (cost_range t) \<and> income = fst (income_range t)
              \<and> time = fst (time_range t)"
      using adjust_for_user_none[of preferences t] a by simp
    from t d r n show "\<exists>d ty t cost income time.
            idea = PDict d \<and> map_of d ''type'' = Some (PStr ty)
          \<and> map_of IDEA_TEMPLATES ty = Some t
          \<and> map_of d ''cost'' = Some (PNum cost)
          \<and> map_of d ''expected_income'' = Some (PNum income)
          \<and> map_of d ''time_needed'' = Some (PNum time)
          \<and> fst (cost_range t) \<le> cost \<and> cost \<le> snd (cost_range t)
          \<and> fst (time_range t) \<le> time \<and> time \<le> snd (time_range t)
          \<and> (\<not> truthy preferences \<longrightarrow>
                cost = fst (cost_range t) \<and> income = fst (income_range t)
              \<and> time = fst (time_range t))"
      by blast
  qed
next
  show "\<forall>t cost income time.
          fst (cost_range t) \<le> snd (cost_range t) \<and> fst (time_range t) \<le> snd (time_range t)
        \<and> adjust_for_user t preferences = Inr (cost, income, time) \<longrightarrow>
          fst (cost_range t) \<le> cost \<and> cost \<le> snd (cost_range t)
        \<and> fst (time_range t) \<le> time \<and> time \<le> snd (time_range t)"
    using adjust_for_user_range by blast
qed

text \<open>The theorem at a budget of 1,000,000 with no time available, and without
  preferences.\<close>

theorem generate_within_template_ranges_witness:
  "project_ok (PDict [(''name'', PStr ''acme/Platform''), (''stars'', PNum 120),
                      (''description'', PStr ''An agent platform'')])
   \<and> preferences_ok (PDict [(''budget'', PNum 1000000), (''time_available'', PNum 0),
                            (''skills'', PList [PStr ''Python''])])
   \<and> generate_ideas
        (PDict [(''name'', PStr ''acme/Platform''), (''stars'', PNum 120),
                (''description'', PStr ''An agent platform'')])
        (PDict [(''budget'', PNum 1000000), (''time_available'', PNum 0),
                (''skills'', PList [PStr ''Python''])])
      = Inr [PDict [(''type'', PStr ''deployment_service''), (''cost'', PNum 500),
                    (''expected_income'', PNum 6000), (''time_needed'', PNum 1),
                    (''project'', PStr ''Platform''), (''project_url'', PStr [])],
             PDict [(''type'', PStr ''consulting''), (''cost'', PNum 100),
                    (''expected_income'', PNum 12500), (''time_needed'', PNum (1 / 2)),
                    (''project'', PStr ''Platform''), (''project_url'', PStr [])],
             PDict [(''type'', PStr ''training''), (''cost'', PNum 200),
                    (''expected_income'', PNum 25500), (''time_needed'', PNum 3),
                    (''project'', PStr ''Platform''), (''project_url'', PStr [])]]
   \<and> \<not> truthy PNone
   \<and> generate_ideas
        (PDict [(''name'', PStr ''acme/Platform''), (''stars'', PNum 120),
                (''description'', PStr ''An agent platform'')])
        PNone
      = Inr [PDict [(''type'', PStr ''deployment_service''), (''cost'', PNum 100),
                    (''expected_income'', PNum 2000), (''time_needed'', PNum 1),
                    (''project'', PStr ''Platform''), (''project_url'', PStr [])],
             PDict [(''type'', PStr ''consulting''), (''cost'', PNum 0),
                    (''expected_income'', PNum 5000), (''time_needed'', PNum (1 / 2)),
                    (''project'', PStr ''Platform''), (''project_url'', PStr [])],
             PDict [(''type'', PStr ''training''), (''cost'', PNum 0),
                    (''expected_income'', PNum 1000), (''time_needed'', PNum 3),
                    (''project'', PStr ''Platform''), (''project_url'', PStr [])]]"
  using generate_within_template_ranges
    [of "PDict [(''budget'', PNum 1000000), (''time_available'', PNum 0),
                (''skills'', PList [PStr ''Python''])]"
        "PDict [(''name'', PStr ''acme/Platform''), (''stars'', PNum 120),
                (''description'', PStr ''An agent platform'')]"]
  by (simp add: eval_defs project_ok_def generate_ideas_def last_segment_def
        IDEA_TEMPLATES_def adjust_for_user_def floordiv_def)

subsection \<open>The ranker\<close>













subsection \<open>The record store: ideas\<close>

lemmas store_defs = AssetPool_def save_ideas_def save_executions_def save_revenues_def
  add_idea_def get_idea_def update_idea_status_def set_idea_status_def start_execution_def
  append_entry_def add_execution_step_def add_execution_log_def set_execution_status_def
  complete_execution_def add_revenue_def opt_str_def given_def has_id_def updated_idea_def
  bindE_def

lemma dict_set_same:
  "map_of d k = Some v \<Longrightarrow> dict_set d k v = d"
  by (induction d) (auto split: if_splits)

lemma set_idea_status_dict:
  "set_idea_status (PDict d) now status notes = Inr (PDict (updated_idea d now status notes))"
  by (simp add: set_idea_status_def updated_idea_def bindE_def Let_def)

lemma has_id_dict:
  assumes "has_id v"
  obtains d i where "v = PDict d" "map_of d ''id'' = Some i"
  using assms by (cases v) (auto simp: has_id_def split: option.splits)

lemma update_idea_loop_absent:
  assumes "list_all has_id xs"
    and "\<forall>i \<in> set xs. py_getitem i ''id'' \<noteq> Inr idv"
  shows "update_idea_loop xs now idv status notes = Inr None"
  using assms
proof (induction xs)
  case Nil
  then show ?case by simp
next
  case (Cons x xs)
  from Cons.prems(1) have "has_id x" by simp
  then obtain d i where x: "x = PDict d" "map_of d ''id'' = Some i" by (rule has_id_dict)
  with Cons.prems(2) have "i \<noteq> idv" by auto
  with x Cons show ?case by simp
qed

lemma update_idea_loop_present:
  assumes "list_all has_id pre"
    and "\<forall>i \<in> set pre. py_getitem i ''id'' \<noteq> Inr idv"
    and "map_of d ''id'' = Some idv"
  shows "update_idea_loop (pre @ PDict d # post) now idv status notes
           = Inr (Some (pre @ PDict (updated_idea d now status notes) # post))"
  using assms
proof (induction pre)
  case Nil
  then show ?case by (simp add: set_idea_status_dict)
next
  case (Cons x pre)
  from Cons.prems(1) have "has_id x" by simp
  then obtain e i where x: "x = PDict e" "map_of e ''id'' = Some i" by (rule has_id_dict)
  with Cons.prems(2) have "i \<noteq> idv" by auto
  with x Cons show ?case by simp
qed

text \<open>
  Claim C8. In a store whose ideas all carry an identifier: for every identifier that no
  idea has, \<open>update_idea_status\<close> returns \<open>False\<close> (it raises nothing) and the store, its
  three collections and its three files, is unchanged; when an idea has the identifier,
  the first such idea gets the status and the time of the update, and the notes when
  notes are given (\<open>None\<close> and the empty string count as not given, as \<open>if notes:\<close>
  decides), every other field is kept, the ideas are saved, and the result is \<open>True\<close>.
\<close>

theorem update_idea_status_result:
  assumes "ideas s = PList xs" and "list_all has_id xs"
  shows "((\<forall>i \<in> set xs. py_getitem i ''id'' \<noteq> Inr (PStr idea_id)) \<longrightarrow>
            update_idea_status s now (PStr idea_id) status notes = Inr (False, s))
       \<and> (\<forall>pre d post.
            xs = pre @ PDict d # post
          \<and> (\<forall>i \<in> set pre. py_getitem i ''id'' \<noteq> Inr (PStr idea_id))
          \<and> map_of d ''id'' = Some (PStr idea_id) \<longrightarrow>
            update_idea_status s now (PStr idea_id) status notes
              = Inr (True, save_ideas
                      (s\<lparr>ideas := PList (pre @ PDict (updated_idea d now status notes) # post)\<rparr>))
          \<and> map_of (updated_idea d now status notes) ''status'' = Some (PStr status)
          \<and> map_of (updated_idea d now status notes) ''updated_at'' = Some (PStr (isoformat now))
          \<and> map_of (updated_idea d now status notes) ''notes''
               = (if given notes then Some (opt_str notes) else map_of d ''notes'')
          \<and> (\<forall>k. k \<notin> {''status'', ''updated_at'', ''notes''} \<longrightarrow>
                 map_of (updated_idea d now status notes) k = map_of d k))"
proof (intro conjI allI impI)
  assume "\<forall>i \<in> set xs. py_getitem i ''id'' \<noteq> Inr (PStr idea_id)"
  with assms(2) have "update_idea_loop xs now (PStr idea_id) status notes = Inr None"
    by (rule update_idea_loop_absent)
  then show "update_idea_status s now (PStr idea_id) status notes = Inr (False, s)"
    by (simp add: update_idea_status_def bindE_def assms(1))
next
  fix pre d post
  assume a: "xs = pre @ PDict d # post
          \<and> (\<forall>i \<in> set pre. py_getitem i ''id'' \<noteq> Inr (PStr idea_id))
          \<and> map_of d ''id'' = Some (PStr idea_id)"
  with assms(2) have "list_all has_id pre" by simp
  with a have "update_idea_loop xs now (PStr idea_id) status notes
           = Inr (Some (pre @ PDict (updated_idea d now status notes) # post))"
    by (simp add: update_idea_loop_present)
  then show "update_idea_status s now (PStr idea_id) status notes
              = Inr (True, save_ideas
                      (s\<lparr>ideas := PList (pre @ PDict (updated_idea d now status notes) # post)\<rparr>))"
    by (simp add: update_idea_status_def bindE_def assms(1))
  show "map_of (updated_idea d now status notes) ''status'' = Some (PStr status)"
    by (simp add: updated_idea_def Let_def map_of_dict_set)
  show "map_of (updated_idea d now status notes) ''updated_at'' = Some (PStr (isoformat now))"
    by (simp add: updated_idea_def Let_def map_of_dict_set)
  show "map_of (updated_idea d now status notes) ''notes''
               = (if given notes then Some (opt_str notes) else map_of d ''notes'')"
    by (simp add: updated_idea_def Let_def map_of_dict_set)
  fix k
  assume "k \<notin> {''status'', ''updated_at'', ''notes''}"
  then show "map_of (updated_idea d now status notes) k = map_of d k"
    by (simp add: updated_idea_def Let_def map_of_dict_set)
qed

theorem update_idea_status_result_witness:
  "ideas (AssetPool (Json (PList [PDict [(''id'', PStr ''idea-1''), (''status'', PStr ''pending'')]]))
            Missing Missing)
     = PList [PDict [(''id'', PStr ''idea-1''), (''status'', PStr ''pending'')]]
   \<and> list_all has_id [PDict [(''id'', PStr ''idea-1''), (''status'', PStr ''pending'')]]
   \<and> py_getitem (PDict [(''id'', PStr ''idea-1''), (''status'', PStr ''pending'')]) ''id''
        \<noteq> Inr (PStr ''idea-2'')
   \<and> update_idea_status
        (AssetPool (Json (PList [PDict [(''id'', PStr ''idea-1''), (''status'', PStr ''pending'')]]))
            Missing Missing)
        \<lparr>strftime = ''20240101120000'', isoformat = ''2024-01-01T12:00:00''\<rparr>
        (PStr ''idea-2'') ''completed'' (Some ''sold'')
      = Inr (False,
          AssetPool (Json (PList [PDict [(''id'', PStr ''idea-1''), (''status'', PStr ''pending'')]]))
            Missing Missing)
   \<and> update_idea_status
        (AssetPool (Json (PList [PDict [(''id'', PStr ''idea-1''), (''status'', PStr ''pending'')]]))
            Missing Missing)
        \<lparr>strftime = ''20240101120000'', isoformat = ''2024-01-01T12:00:00''\<rparr>
        (PStr ''idea-1'') ''completed'' (Some ''sold'')
      = Inr (True,
          \<lparr>ideas = PList [PDict [(''id'', PStr ''idea-1''), (''status'', PStr ''completed''),
                                 (''updated_at'', PStr ''2024-01-01T12:00:00''),
                                 (''notes'', PStr ''sold'')]],
           executions = PList [], revenues = PList [],
           ideas_file = Json (PList [PDict [(''id'', PStr ''idea-1''), (''status'', PStr ''completed''),
                                 (''updated_at'', PStr ''2024-01-01T12:00:00''),
                                 (''notes'', PStr ''sold'')]]),
           execution_file = Missing, revenue_file = Missing\<rparr>)"
proof -
  let ?i = "[(''id'', PStr ''idea-1''), (''status'', PStr ''pending'')]"
  let ?s = "AssetPool (Json (PList [PDict ?i])) Missing Missing"
  let ?now = "\<lparr>strftime = ''20240101120000'', isoformat = ''2024-01-01T12:00:00''\<rparr>"
  have h1: "ideas ?s = PList [PDict ?i]" by (simp add: AssetPool_def)
  have h2: "list_all has_id [PDict ?i]" by (simp add: has_id_def)
  have a: "\<forall>i \<in> set [PDict ?i]. py_getitem i ''id'' \<noteq> Inr (PStr ''idea-2'')" by simp
  have p: "[PDict ?i] = [] @ PDict ?i # []
          \<and> (\<forall>i \<in> set []. py_getitem i ''id'' \<noteq> Inr (PStr ''idea-1''))
          \<and> map_of ?i ''id'' = Some (PStr ''idea-1'')" by simp
  note t = update_idea_status_result[OF h1 h2, of _ "?now" "''completed''" "Some ''sold''"]
  from t[of "''idea-2''"] a
  have r1: "update_idea_status ?s ?now (PStr ''idea-2'') ''completed'' (Some ''sold'') = Inr (False, ?s)"
    by blast
  from t[of "''idea-1''"] p
  have r2: "update_idea_status ?s ?now (PStr ''idea-1'') ''completed'' (Some ''sold'')
      = Inr (True, save_ideas (?s\<lparr>ideas := PList ([] @ PDict (updated_idea ?i ?now ''completed'' (Some ''sold'')) # [])\<rparr>))"
    by blast
  from h1 h2 r1 r2 show ?thesis
    by (simp add: AssetPool_def save_ideas_def updated_idea_def given_def opt_str_def)
qed

text \<open>
  Claim C10. \<open>add_idea\<close> overwrites what the caller supplies: whatever the input record
  carries, the record that is stored (appended to the ideas and saved) has the fresh
  identifier \<open>idea-\<close> followed by the time stamp, the fresh creation time, the status
  \<open>pending\<close> and the score 0. Of these five fields only \<open>tags\<close> keeps the caller's value
  (the empty list when there is none); all other fields are stored as supplied.
\<close>

theorem add_idea_overwrites:
  assumes "ideas s = PList xs"
  shows "\<exists>d'. add_idea s now1 now2 (PDict d)
               = Inr (''idea-'' @ strftime now1, save_ideas (s\<lparr>ideas := PList (xs @ [PDict d'])\<rparr>))
          \<and> map_of d' ''id'' = Some (PStr (''idea-'' @ strftime now1))
          \<and> map_of d' ''created_at'' = Some (PStr (isoformat now2))
          \<and> map_of d' ''status'' = Some (PStr ''pending'')
          \<and> map_of d' ''score'' = Some (PNum 0)
          \<and> map_of d' ''tags'' = Some (case map_of d ''tags'' of None \<Rightarrow> PList [] | Some v \<Rightarrow> v)
          \<and> (\<forall>k. k \<notin> {''id'', ''created_at'', ''status'', ''score'', ''tags''} \<longrightarrow>
                 map_of d' k = map_of d k)"
proof -
  let ?d4 = "dict_set (dict_set (dict_set (dict_set d ''id'' (PStr (''idea-'' @ strftime now1)))
               ''created_at'' (PStr (isoformat now2))) ''status'' (PStr ''pending''))
               ''score'' (PNum 0)"
  let ?tags = "case map_of d ''tags'' of None \<Rightarrow> PList [] | Some v \<Rightarrow> v"
  have "add_idea s now1 now2 (PDict d)
          = Inr (''idea-'' @ strftime now1,
                 save_ideas (s\<lparr>ideas := PList (xs @ [PDict (dict_set ?d4 ''tags'' ?tags)])\<rparr>))"
    by (simp add: add_idea_def bindE_def Let_def assms map_of_dict_set)
  moreover have "map_of (dict_set ?d4 ''tags'' ?tags) ''id'' = Some (PStr (''idea-'' @ strftime now1))"
    "map_of (dict_set ?d4 ''tags'' ?tags) ''created_at'' = Some (PStr (isoformat now2))"
    "map_of (dict_set ?d4 ''tags'' ?tags) ''status'' = Some (PStr ''pending'')"
    "map_of (dict_set ?d4 ''tags'' ?tags) ''score'' = Some (PNum 0)"
    "map_of (dict_set ?d4 ''tags'' ?tags) ''tags'' = Some ?tags"
    "\<forall>k. k \<notin> {''id'', ''created_at'', ''status'', ''score'', ''tags''} \<longrightarrow>
                 map_of (dict_set ?d4 ''tags'' ?tags) k = map_of d k"
    by (simp_all add: map_of_dict_set)
  ultimately show ?thesis by blast
qed

text \<open>An idea that was scored 85 and completed before.\<close>

theorem add_idea_overwrites_witness:
  "ideas (AssetPool Missing Missing Missing) = PList []
   \<and> add_idea (AssetPool Missing Missing Missing)
        \<lparr>strftime = ''20240101120000'', isoformat = ''2024-01-01T12:00:00''\<rparr>
        \<lparr>strftime = ''20240101120000'', isoformat = ''2024-01-01T12:00:00.000010''\<rparr>
        (PDict [(''name'', PStr ''Deploy''), (''id'', PStr ''idea-old''),
                (''created_at'', PStr ''2023-05-05T08:00:00''), (''status'', PStr ''completed''),
                (''score'', PNum 85), (''tags'', PList [PStr ''AI''])])
     = Inr (''idea-20240101120000'',
          \<lparr>ideas = PList [PDict [(''name'', PStr ''Deploy''), (''id'', PStr ''idea-20240101120000''),
                (''created_at'', PStr ''2024-01-01T12:00:00.000010''), (''status'', PStr ''pending''),
                (''score'', PNum 0), (''tags'', PList [PStr ''AI''])]],
           executions = PList [], revenues = PList [],
           ideas_file = Json (PList [PDict [(''name'', PStr ''Deploy''), (''id'', PStr ''idea-20240101120000''),
                (''created_at'', PStr ''2024-01-01T12:00:00.000010''), (''status'', PStr ''pending''),
                (''score'', PNum 0), (''tags'', PList [PStr ''AI''])]]),
           execution_file = Missing, revenue_file = Missing\<rparr>)"
proof -
  have h: "ideas (AssetPool Missing Missing Missing) = PList []" by (simp add: AssetPool_def)
  from h add_idea_overwrites[OF h,
      of "\<lparr>strftime = ''20240101120000'', isoformat = ''2024-01-01T12:00:00''\<rparr>"
         "\<lparr>strftime = ''20240101120000'', isoformat = ''2024-01-01T12:00:00.000010''\<rparr>"
         "[(''name'', PStr ''Deploy''), (''id'', PStr ''idea-old''),
                (''created_at'', PStr ''2023-05-05T08:00:00''), (''status'', PStr ''completed''),
                (''score'', PNum 85), (''tags'', PList [PStr ''AI''])]"]
  show ?thesis
    by (simp add: AssetPool_def add_idea_def bindE_def save_ideas_def Let_def)
qed

text \<open>
  Claim C9 says that \<open>start_execution\<close> leaves an idea that is already in progress
  unchanged. It does not: the call goes through \<open>update_idea_status\<close>, which stamps
  \<open>updated_at\<close> anew. Here the idea is in progress before the call and differs after it.
\<close>

theorem start_execution_changes_idea_counterexample:
  "map_of [(''id'', PStr ''idea-1''), (''status'', PStr ''in_progress''),
           (''updated_at'', PStr ''2024-01-01T12:00:00'')] ''status'' = Some (PStr ''in_progress'')
   \<and> start_execution
        (AssetPool (Json (PList [PDict [(''id'', PStr ''idea-1''), (''status'', PStr ''in_progress''),
                                        (''updated_at'', PStr ''2024-01-01T12:00:00'')]]))
           Missing Missing)
        \<lparr>strftime = ''20240102090000'', isoformat = ''2024-01-02T09:00:00''\<rparr>
        \<lparr>strftime = ''20240102090000'', isoformat = ''2024-01-02T09:00:00.000010''\<rparr>
        \<lparr>strftime = ''20240102090000'', isoformat = ''2024-01-02T09:00:00.000020''\<rparr>
        ''idea-1''
     = Inr (''exec-20240102090000'',
          \<lparr>ideas = PList [PDict [(''id'', PStr ''idea-1''), (''status'', PStr ''in_progress''),
                                 (''updated_at'', PStr ''2024-01-02T09:00:00.000020'')]],
           executions = PList [PDict [(''id'', PStr ''exec-20240102090000''),
                                      (''idea_id'', PStr ''idea-1''),
                                      (''started_at'', PStr ''2024-01-02T09:00:00.000010''),
                                      (''status'', PStr ''in_progress''),
                                      (''steps'', PList []), (''logs'', PList [])]],
           revenues = PList [],
           ideas_file = Json (PList [PDict [(''id'', PStr ''idea-1''), (''status'', PStr ''in_progress''),
                                 (''updated_at'', PStr ''2024-01-02T09:00:00.000020'')]]),
           execution_file = Json (PList [PDict [(''id'', PStr ''exec-20240102090000''),
                                      (''idea_id'', PStr ''idea-1''),
                                      (''started_at'', PStr ''2024-01-02T09:00:00.000010''),
                                      (''status'', PStr ''in_progress''),
                                      (''steps'', PList []), (''logs'', PList [])]]),
           revenue_file = Missing\<rparr>)
   \<and> PDict [(''id'', PStr ''idea-1''), (''status'', PStr ''in_progress''),
             (''updated_at'', PStr ''2024-01-02T09:00:00.000020'')]
       \<noteq> PDict [(''id'', PStr ''idea-1''), (''status'', PStr ''in_progress''),
                (''updated_at'', PStr ''2024-01-01T12:00:00'')]"
  by (simp add: store_defs Let_def)

text \<open>
  Claim C9, amended. When the first idea with the identifier is already in progress,
  \<open>start_execution\<close> creates a new execution and changes nothing of that idea but
  \<open>updated_at\<close>, which it sets to the time of the call; the other ideas are as before.
\<close>

theorem start_execution_restamps_idea:
  assumes "ideas s = PList (pre @ PDict d # post)"
    and "list_all has_id pre"
    and "\<forall>i \<in> set pre. py_getitem i ''id'' \<noteq> Inr (PStr idea_id)"
    and "map_of d ''id'' = Some (PStr idea_id)"
    and "map_of d ''status'' = Some (PStr ''in_progress'')"
    and "executions s = PList es"
  shows "\<exists>s' execution.
           start_execution s now1 now2 now3 idea_id = Inr (''exec-'' @ strftime now1, s')
         \<and> executions s' = PList (es @ [execution])
         \<and> ideas s' = PList (pre @ PDict (dict_set d ''updated_at'' (PStr (isoformat now3))) # post)
         \<and> map_of (dict_set d ''updated_at'' (PStr (isoformat now3))) ''updated_at''
             = Some (PStr (isoformat now3))
         \<and> (\<forall>k. k \<noteq> ''updated_at'' \<longrightarrow>
               map_of (dict_set d ''updated_at'' (PStr (isoformat now3))) k = map_of d k)"
proof -
  let ?e = "PDict [(''id'', PStr (''exec-'' @ strftime now1)), (''idea_id'', PStr idea_id),
                   (''started_at'', PStr (isoformat now2)), (''status'', PStr ''in_progress''),
                   (''steps'', PList []), (''logs'', PList [])]"
  let ?s1 = "save_executions (s\<lparr>executions := PList (es @ [?e])\<rparr>)"
  have u: "updated_idea d now3 ''in_progress'' None = dict_set d ''updated_at'' (PStr (isoformat now3))"
    by (simp add: updated_idea_def Let_def given_def opt_str_def dict_set_same[OF assms(5)])
  have "update_idea_loop (pre @ PDict d # post) now3 (PStr idea_id) ''in_progress'' None
          = Inr (Some (pre @ PDict (updated_idea d now3 ''in_progress'' None) # post))"
    using assms(2,3,4) by (rule update_idea_loop_present)
  then have "update_idea_status ?s1 now3 (PStr idea_id) ''in_progress'' None
          = Inr (True, save_ideas (?s1\<lparr>ideas := PList (pre @ PDict (dict_set d ''updated_at'' (PStr (isoformat now3))) # post)\<rparr>))"
    by (simp add: update_idea_status_def bindE_def assms(1) save_executions_def u)
  then have "start_execution s now1 now2 now3 idea_id
          = Inr (''exec-'' @ strftime now1,
                 save_ideas (?s1\<lparr>ideas := PList (pre @ PDict (dict_set d ''updated_at'' (PStr (isoformat now3))) # post)\<rparr>))"
    by (simp add: start_execution_def bindE_def Let_def assms(6))
  moreover have "executions (save_ideas (?s1\<lparr>ideas := PList (pre @ PDict (dict_set d ''updated_at'' (PStr (isoformat now3))) # post)\<rparr>))
       = PList (es @ [?e])"
    by (simp add: save_ideas_def save_executions_def)
  moreover have "ideas (save_ideas (?s1\<lparr>ideas := PList (pre @ PDict (dict_set d ''updated_at'' (PStr (isoformat now3))) # post)\<rparr>))
       = PList (pre @ PDict (dict_set d ''updated_at'' (PStr (isoformat now3))) # post)"
    by (simp add: save_ideas_def save_executions_def)
  moreover have "map_of (dict_set d ''updated_at'' (PStr (isoformat now3))) ''updated_at''
             = Some (PStr (isoformat now3))"
    "\<forall>k. k \<noteq> ''updated_at'' \<longrightarrow>
               map_of (dict_set d ''updated_at'' (PStr (isoformat now3))) k = map_of d k"
    by (simp_all add: map_of_dict_set)
  ultimately show ?thesis by blast
qed

theorem start_execution_restamps_idea_witness:
  "ideas (AssetPool (Json (PList [PDict [(''id'', PStr ''idea-0'')],
                                  PDict [(''id'', PStr ''idea-1''), (''status'', PStr ''in_progress''),
                                         (''updated_at'', PStr ''2024-01-01T12:00:00'')]]))
           Missing Missing)
     = PList ([PDict [(''id'', PStr ''idea-0'')]]
              @ PDict [(''id'', PStr ''idea-1''), (''status'', PStr ''in_progress''),
                       (''updated_at'', PStr ''2024-01-01T12:00:00'')] # [])
   \<and> list_all has_id [PDict [(''id'', PStr ''idea-0'')]]
   \<and> py_getitem (PDict [(''id'', PStr ''idea-0'')]) ''id'' \<noteq> Inr (PStr ''idea-1'')
   \<and> executions (AssetPool (Json (PList [PDict [(''id'', PStr ''idea-0'')],
                                  PDict [(''id'', PStr ''idea-1''), (''status'', PStr ''in_progress''),
                                         (''updated_at'', PStr ''2024-01-01T12:00:00'')]]))
           Missing Missing) = PList []
   \<and> (\<exists>s' execution.
         start_execution
           (AssetPool (Json (PList [PDict [(''id'', PStr ''idea-0'')],
                                  PDict [(''id'', PStr ''idea-1''), (''status'', PStr ''in_progress''),
                                         (''updated_at'', PStr ''2024-01-01T12:00:00'')]]))
              Missing Missing)
           \<lparr>strftime = ''20240102090000'', isoformat = ''2024-01-02T09:00:00''\<rparr>
           \<lparr>strftime = ''20240102090000'', isoformat = ''2024-01-02T09:00:00.000010''\<rparr>
           \<lparr>strftime = ''20240102090000'', isoformat = ''2024-01-02T09:00:00.000020''\<rparr>
           ''idea-1''
          = Inr (''exec-20240102090000'', s')
       \<and> executions s' = PList ([] @ [execution])
       \<and> ideas s' = PList [PDict [(''id'', PStr ''idea-0'')],
                            PDict [(''id'', PStr ''idea-1''), (''status'', PStr ''in_progress''),
                                   (''updated_at'', PStr ''2024-01-02T09:00:00.000020'')]])"
proof -
  let ?d = "[(''id'', PStr ''idea-1''), (''status'', PStr ''in_progress''),
             (''updated_at'', PStr ''2024-01-01T12:00:00'')]"
  let ?pre = "[PDict [(''id'', PStr ''idea-0'')]]"
  let ?s = "AssetPool (Json (PList [PDict [(''id'', PStr ''idea-0'')], PDict ?d])) Missing Missing"
  have h1: "ideas ?s = PList (?pre @ PDict ?d # [])" by (simp add: AssetPool_def)
  have h2: "list_all has_id ?pre" by (simp add: has_id_def)
  have h3: "\<forall>i \<in> set ?pre. py_getitem i ''id'' \<noteq> Inr (PStr ''idea-1'')" by simp
  have h4: "map_of ?d ''id'' = Some (PStr ''idea-1'')" by simp
  have h5: "map_of ?d ''status'' = Some (PStr ''in_progress'')" by simp
  have h6: "executions ?s = PList []" by (simp add: AssetPool_def)
  from start_execution_restamps_idea[OF h1 h2 h3 h4 h5 h6,
      of "\<lparr>strftime = ''20240102090000'', isoformat = ''2024-01-02T09:00:00''\<rparr>"
         "\<lparr>strftime = ''20240102090000'', isoformat = ''2024-01-02T09:00:00.000010''\<rparr>"
         "\<lparr>strftime = ''20240102090000'', isoformat = ''2024-01-02T09:00:00.000020''\<rparr>"]
  obtain s' execution where
    "start_execution ?s
           \<lparr>strftime = ''20240102090000'', isoformat = ''2024-01-02T09:00:00''\<rparr>
           \<lparr>strftime = ''20240102090000'', isoformat = ''2024-01-02T09:00:00.000010''\<rparr>
           \<lparr>strftime = ''20240102090000'', isoformat = ''2024-01-02T09:00:00.000020''\<rparr>
           ''idea-1'' = Inr (''exec-'' @ ''20240102090000'', s')"
    "executions s' = PList ([] @ [execution])"
    "ideas s' = PList (?pre @ PDict (dict_set ?d ''updated_at'' (PStr ''2024-01-02T09:00:00.000020'')) # [])"
    by auto
  then have "\<exists>s' execution.
         start_execution ?s
           \<lparr>strftime = ''20240102090000'', isoformat = ''2024-01-02T09:00:00''\<rparr>
           \<lparr>strftime = ''20240102090000'', isoformat = ''2024-01-02T09:00:00.000010''\<rparr>
           \<lparr>strftime = ''20240102090000'', isoformat = ''2024-01-02T09:00:00.000020''\<rparr>
           ''idea-1''
          = Inr (''exec-20240102090000'', s')
       \<and> executions s' = PList ([] @ [execution])
       \<and> ideas s' = PList [PDict [(''id'', PStr ''idea-0'')],
                            PDict [(''id'', PStr ''idea-1''), (''status'', PStr ''in_progress''),
                                   (''updated_at'', PStr ''2024-01-02T09:00:00.000020'')]]"
    by (intro exI[of _ s'] exI[of _ execution]) simp
  with h1 h2 h6 show ?thesis by simp
qed

subsection \<open>The record store: what the operations change\<close>





















subsection \<open>The record store: well-formed stores\<close>




































subsection \<open>The record store: completing an execution\<close>











end
